theory Spec2Isabelle
  imports Complex_Main
begin

section \<open>JavaScript values used by the services\<close>

text \<open>
  The services are JavaScript running on Node.js against MongoDB through Mongoose.
  A JavaScript Number is modelled as an exact real, with one extra value for NaN, the
  result of a failed numeric parse. Rounding, overflow and the infinities of IEEE
  doubles are outside the model. A Date is its time value in milliseconds since the
  epoch, or the Invalid Date. The process time zone is taken to be UTC, so local
  calendar operations (\<open>setHours\<close>, \<open>setDate\<close>) act on UTC fields.
\<close>

datatype jsnum = Num real | NaN

datatype jsdate = Date int | InvalidDate

type_synonym objectId = nat

datatype jsval =
    Str string
  | Number jsnum
  | DateV jsdate
  | ObjId objectId
  | TagMap "(string \<times> string) list"

text \<open>An object under construction: property name to value; an absent name is \<open>undefined\<close>.\<close>

type_synonym jsobject = "string \<Rightarrow> jsval option"

text \<open>Truthiness: \<open>undefined\<close>, the empty string, 0 and NaN are falsy; objects are truthy.\<close>

fun truthy :: "jsval option \<Rightarrow> bool" where
  "truthy None = False"
| "truthy (Some (Str s)) = (s \<noteq> [])"
| "truthy (Some (Number (Num r))) = (r \<noteq> 0)"
| "truthy (Some (Number NaN)) = False"
| "truthy (Some (DateV d)) = True"
| "truthy (Some (ObjId i)) = True"
| "truthy (Some (TagMap m)) = True"

definition falsy :: "jsval option \<Rightarrow> bool" where
  "falsy v = (\<not> truthy v)"

text \<open>The operator \<open>a || b\<close>.\<close>

definition js_or :: "jsval option \<Rightarrow> jsval option \<Rightarrow> jsval option" where
  "js_or a b = (if truthy a then a else b)"

subsection \<open>parseFloat\<close>

definition is_digit :: "char \<Rightarrow> bool" where
  "is_digit c = (c \<in> set ''0123456789'')"

definition is_space :: "char \<Rightarrow> bool" where
  "is_space c = (c \<in> set [CHR '' '', CHR 0x09, CHR 0x0A, CHR 0x0B, CHR 0x0C, CHR 0x0D])"

definition digit_val :: "char \<Rightarrow> int" where
  "digit_val c = int (of_char c) - 48"

definition digits_val :: "string \<Rightarrow> int" where
  "digits_val ds = fold (\<lambda>c n. 10 * n + digit_val c) ds 0"

text \<open>An optional sign in front of the rest of the string.\<close>

fun take_sign :: "string \<Rightarrow> bool \<times> string" where
  "take_sign [] = (False, [])"
| "take_sign (c # r) =
     (if c = CHR ''-'' then (True, r) else if c = CHR ''+'' then (False, r) else (False, c # r))"

text \<open>
  The exponent part is read only when it is complete: \<open>e\<close> or \<open>E\<close>, an optional sign
  and at least one digit.
\<close>

fun exponent :: "string \<Rightarrow> int" where
  "exponent [] = 0"
| "exponent (c # r) =
     (if c = CHR ''e'' \<or> c = CHR ''E'' then
        (case take_sign r of (neg, r') \<Rightarrow>
           (let ds = takeWhile is_digit r' in
            if ds = [] then 0
            else if neg then - digits_val ds else digits_val ds))
      else 0)"

definition pow10 :: "int \<Rightarrow> real" where
  "pow10 e = (if 0 \<le> e then 10 ^ nat e else 1 / 10 ^ nat (- e))"

text \<open>
  \<open>parseFloat\<close> skips leading white space and reads the longest prefix that is a
  decimal literal; with no such prefix the result is NaN. The literal is read with exact
  arithmetic. The text \<open>Infinity\<close> and a literal beyond the range of a double, for which
  JavaScript gives an infinite number or zero, have no counterpart among the exact reals
  and are not covered.
\<close>

definition parseFloat :: "string \<Rightarrow> jsnum" where
  "parseFloat s =
     (case take_sign (dropWhile is_space s) of (neg, u) \<Rightarrow>
        (let ip = takeWhile is_digit u;
             v = dropWhile is_digit u;
             fp = (case v of [] \<Rightarrow> [] | c # r \<Rightarrow> if c = CHR ''.'' then takeWhile is_digit r else []);
             w = (case v of [] \<Rightarrow> [] | c # r \<Rightarrow> if c = CHR ''.'' then dropWhile is_digit r else v)
         in if ip = [] \<and> fp = [] then NaN
            else Num ((if neg then - 1 else 1) *
                      (of_int (digits_val (ip @ fp)) / 10 ^ length fp) * pow10 (exponent w))))"

section \<open>The normalizer (ingestionService.normalizeLineItem)\<close>

text \<open>A parsed CSV record: column name to cell, in column order, names distinct.\<close>

type_synonym row = "(string \<times> string) list"

definition CSV_COLUMNS :: "(string \<times> string) list" where
  "CSV_COLUMNS =
     [(''InvoiceID'', ''invoiceId''),
      (''PayerAccountId'', ''payerAccountId''),
      (''LinkedAccountId'', ''linkedAccountId''),
      (''RecordType'', ''recordType''),
      (''ProductName'', ''productName''),
      (''ProductCode'', ''productCode''),
      (''UsageType'', ''usageType''),
      (''Operation'', ''operation''),
      (''AvailabilityZone'', ''availabilityZone''),
      (''ReservedInstance'', ''reservedInstance''),
      (''ItemDescription'', ''itemDescription''),
      (''UsageStartDate'', ''usageStartDate''),
      (''UsageEndDate'', ''usageEndDate''),
      (''UsageQuantity'', ''usageQuantity''),
      (''BlendedRate'', ''blendedRate''),
      (''BlendedCost'', ''blendedCost''),
      (''UnblendedRate'', ''unblendedRate''),
      (''UnblendedCost'', ''unblendedCost''),
      (''ResourceId'', ''resourceId'')]"

definition TAG_PREFIX :: string where
  "TAG_PREFIX = ''user:''"

text \<open>
  What the code reads from its environment: the clock, and the engine's parser behind
  \<open>new Date(string)\<close>, whose accepted formats are implementation-defined.
\<close>

record runtime =
  now :: int
  Date_parse :: "string \<Rightarrow> jsdate"

text \<open>The column-mapping loop: a cell that is present and not empty is copied.\<close>

definition map_column :: "row \<Rightarrow> string \<times> string \<Rightarrow> jsobject \<Rightarrow> jsobject" where
  "map_column r cm n =
     (case map_of r (fst cm) of
        None \<Rightarrow> n
      | Some v \<Rightarrow> if v \<noteq> [] then n(snd cm \<mapsto> Str v) else n)"

text \<open>\<open>if (n.f) n.f = new Date(n.f)\<close> and \<open>if (n.f) n.f = parseFloat(n.f)\<close>.\<close>

definition parse_date_field :: "(string \<Rightarrow> jsdate) \<Rightarrow> string \<Rightarrow> jsobject \<Rightarrow> jsobject" where
  "parse_date_field p f n =
     (case n f of
        Some (Str s) \<Rightarrow> if s \<noteq> [] then n(f \<mapsto> DateV (p s)) else n
      | _ \<Rightarrow> n)"

definition parse_float_field :: "string \<Rightarrow> jsobject \<Rightarrow> jsobject" where
  "parse_float_field f n =
     (case n f of
        Some (Str s) \<Rightarrow> if s \<noteq> [] then n(f \<mapsto> Number (parseFloat s)) else n
      | _ \<Rightarrow> n)"

subsection \<open>extractRegion\<close>

definition is_lower :: "char \<Rightarrow> bool" where
  "is_lower c = (c \<in> set ''abcdefghijklmnopqrstuvwxyz'')"

fun strip_prefix :: "string \<Rightarrow> string \<Rightarrow> string option" where
  "strip_prefix [] s = Some s"
| "strip_prefix (p # ps) [] = None"
| "strip_prefix (p # ps) (c # cs) = (if p = c then strip_prefix ps cs else None)"

text \<open>The first alternative of the list that is a prefix, with the rest of the string.\<close>

fun match_alt :: "string list \<Rightarrow> string \<Rightarrow> (string \<times> string) option" where
  "match_alt [] s = None"
| "match_alt (a # as) s =
     (case strip_prefix a s of Some r \<Rightarrow> Some (a, r) | None \<Rightarrow> match_alt as s)"

text \<open>\<open>/(us|eu|ap|sa|ca|cn|af)-(north|south|east|west|central)-\d/\<close> anchored at the head.\<close>

definition region_here :: "string \<Rightarrow> string option" where
  "region_here s =
     (case match_alt [''us'', ''eu'', ''ap'', ''sa'', ''ca'', ''cn'', ''af''] s of
        None \<Rightarrow> None
      | Some (g, r1) \<Rightarrow>
          (case strip_prefix ''-'' r1 of
             None \<Rightarrow> None
           | Some r2 \<Rightarrow>
               (case match_alt [''north'', ''south'', ''east'', ''west'', ''central''] r2 of
                  None \<Rightarrow> None
                | Some (d, r3) \<Rightarrow>
                    (case strip_prefix ''-'' r3 of
                       None \<Rightarrow> None
                     | Some r4 \<Rightarrow>
                         (case r4 of
                            [] \<Rightarrow> None
                          | c # r5 \<Rightarrow> if is_digit c then Some (g @ ''-'' @ d @ ''-'' @ [c]) else None)))))"

text \<open>\<open>/([a-z]{2}-[a-z]+-\d+)[a-z]/\<close> anchored at the head; the result is group 1.\<close>

definition zone_here :: "string \<Rightarrow> string option" where
  "zone_here s =
     (let a = take 2 s; r1 = drop 2 s in
      if length a = 2 \<and> list_all is_lower a then
        (case strip_prefix ''-'' r1 of
           None \<Rightarrow> None
         | Some r2 \<Rightarrow>
             (let b = takeWhile is_lower r2; r3 = dropWhile is_lower r2 in
              if b = [] then None
              else
                (case strip_prefix ''-'' r3 of
                   None \<Rightarrow> None
                 | Some r4 \<Rightarrow>
                     (let ds = takeWhile is_digit r4; r5 = dropWhile is_digit r4 in
                      if ds = [] then None
                      else
                        (case r5 of
                           [] \<Rightarrow> None
                         | c # r6 \<Rightarrow>
                             if is_lower c then Some (a @ ''-'' @ b @ ''-'' @ ds) else None)))))
      else None)"

text \<open>The leftmost match of an anchored matcher.\<close>

fun first_match :: "(string \<Rightarrow> string option) \<Rightarrow> string \<Rightarrow> string option" where
  "first_match m [] = m []"
| "first_match m (c # cs) = (case m (c # cs) of Some r \<Rightarrow> Some r | None \<Rightarrow> first_match m cs)"

definition extractRegion :: "string \<Rightarrow> string" where
  "extractRegion v =
     (if v = [] then ''unknown''
      else
        (case first_match region_here v of
           Some r \<Rightarrow> r
         | None \<Rightarrow>
             (case first_match zone_here v of
                Some r \<Rightarrow> r
              | None \<Rightarrow> ''unknown'')))"

text \<open>The string an operand of \<open>||\<close> chains over string fields evaluates to.\<close>

fun str_of :: "jsval option \<Rightarrow> string" where
  "str_of (Some (Str s)) = s"
| "str_of _ = []"

subsection \<open>Tags\<close>

fun map_set :: "string \<Rightarrow> string \<Rightarrow> (string \<times> string) list \<Rightarrow> (string \<times> string) list" where
  "map_set k v [] = [(k, v)]"
| "map_set k v ((k', v') # m) = (if k' = k then (k', v) # m else (k', v') # map_set k v m)"

definition add_tag :: "string \<times> string \<Rightarrow> (string \<times> string) list \<Rightarrow> (string \<times> string) list" where
  "add_tag kv m =
     (if strip_prefix TAG_PREFIX (fst kv) \<noteq> None \<and> snd kv \<noteq> []
      then map_set (drop (length TAG_PREFIX) (fst kv)) (snd kv) m
      else m)"


subsection \<open>normalizeLineItem\<close>

text \<open>One definition per statement of the function, composed in the source's order.\<close>

definition new_normalized :: "runtime \<Rightarrow> objectId \<Rightarrow> jsobject" where
  "new_normalized rt jobId =
     [''ingestionJobId'' \<mapsto> ObjId jobId, ''ingestionDate'' \<mapsto> DateV (Date (now rt))]"

definition map_columns :: "row \<Rightarrow> jsobject \<Rightarrow> jsobject" where
  "map_columns r n = fold (map_column r) CSV_COLUMNS n"

definition parse_dates :: "runtime \<Rightarrow> jsobject \<Rightarrow> jsobject" where
  "parse_dates rt n =
     parse_date_field (Date_parse rt) ''usageEndDate''
       (parse_date_field (Date_parse rt) ''usageStartDate'' n)"

definition parse_numbers :: "jsobject \<Rightarrow> jsobject" where
  "parse_numbers n =
     parse_float_field ''unblendedCost''
       (parse_float_field ''blendedCost'' (parse_float_field ''usageQuantity'' n))"

definition set_accountId :: "jsobject \<Rightarrow> jsobject" where
  "set_accountId n =
     n(''accountId'' :=
         js_or (js_or (n ''linkedAccountId'') (n ''payerAccountId'')) (Some (Str ''unknown'')))"

definition set_service :: "jsobject \<Rightarrow> jsobject" where
  "set_service n =
     n(''service'' :=
         js_or (js_or (n ''productName'') (n ''productCode'')) (Some (Str ''unknown'')))"

definition set_region :: "jsobject \<Rightarrow> jsobject" where
  "set_region n =
     n(''region'' \<mapsto>
         Str (extractRegion
                (str_of (js_or (js_or (n ''availabilityZone'') (n ''usageType'')) (Some (Str []))))))"

definition set_cost :: "jsobject \<Rightarrow> jsobject" where
  "set_cost n =
     n(''cost'' :=
         js_or (js_or (n ''unblendedCost'') (n ''blendedCost'')) (Some (Number (Num 0))))"

definition set_usageQuantityNormalized :: "jsobject \<Rightarrow> jsobject" where
  "set_usageQuantityNormalized n =
     n(''usageQuantityNormalized'' := js_or (n ''usageQuantity'') (Some (Number (Num 0))))"

definition set_usageTypeNormalized :: "jsobject \<Rightarrow> jsobject" where
  "set_usageTypeNormalized n =
     n(''usageTypeNormalized'' := js_or (n ''usageType'') (Some (Str [])))"

definition set_tags :: "row \<Rightarrow> jsobject \<Rightarrow> jsobject" where
  "set_tags r n = n(''tags'' \<mapsto> TagMap (fold add_tag r []))"

definition normalizeLineItem :: "runtime \<Rightarrow> row \<Rightarrow> objectId \<Rightarrow> jsobject" where
  "normalizeLineItem rt r jobId =
     set_tags r
       (set_usageTypeNormalized
          (set_usageQuantityNormalized
             (set_cost
                (set_region
                   (set_service
                      (set_accountId
                         (parse_numbers
                            (parse_dates rt
                               (map_columns r (new_normalized rt jobId))))))))))"

text \<open>
  The required-field check of the pipeline:
  \<open>!normalized.accountId || !normalized.service || normalized.cost === undefined\<close>.
\<close>

definition missing_required :: "jsobject \<Rightarrow> bool" where
  "missing_required n = (falsy (n ''accountId'') \<or> falsy (n ''service'') \<or> n ''cost'' = None)"

section \<open>Dates\<close>

definition ms_per_day :: int where
  "ms_per_day = 86400000"

text \<open>\<open>d.setHours(0, 0, 0, 0)\<close>.\<close>

definition startOfDay :: "int \<Rightarrow> int" where
  "startOfDay t = (t div ms_per_day) * ms_per_day"

text \<open>
  Year, month and day of month of a day number counted from 1970-01-01, in the
  proleptic Gregorian calendar: the era of 400 years, the day of the era, the year of the
  era, the day of the year counted from 1 March, and the month counted from March.
\<close>

definition civil_month :: "int \<Rightarrow> int \<Rightarrow> int \<Rightarrow> int \<times> int \<times> int" where
  "civil_month y d m = (if m \<le> 2 then y + 1 else y, m, d)"

definition civil_mp :: "int \<Rightarrow> int \<Rightarrow> int \<Rightarrow> int \<times> int \<times> int" where
  "civil_mp y doy mp =
     civil_month y (doy - (153 * mp + 2) div 5 + 1) (if mp < 10 then mp + 3 else mp - 9)"

definition civil_doy :: "int \<Rightarrow> int \<Rightarrow> int \<times> int \<times> int" where
  "civil_doy y doy = civil_mp y doy ((5 * doy + 2) div 153)"

definition civil_yoe :: "int \<Rightarrow> int \<Rightarrow> int \<Rightarrow> int \<times> int \<times> int" where
  "civil_yoe era doe yoe =
     civil_doy (yoe + era * 400) (doe - (365 * yoe + yoe div 4 - yoe div 100))"

definition civil_doe :: "int \<Rightarrow> int \<Rightarrow> int \<times> int \<times> int" where
  "civil_doe era doe =
     civil_yoe era doe ((doe - doe div 1460 + doe div 36524 - doe div 146096) div 365)"

definition civil_from_days :: "int \<Rightarrow> int \<times> int \<times> int" where
  "civil_from_days z = civil_doe ((z + 719468) div 146097) ((z + 719468) mod 146097)"

text \<open>\<open>d.setDate(1); d.setHours(0, 0, 0, 0)\<close>.\<close>

definition startOfMonth :: "int \<Rightarrow> int" where
  "startOfMonth t =
     (t div ms_per_day - (snd (snd (civil_from_days (t div ms_per_day))) - 1)) * ms_per_day"

definition digit_char :: "int \<Rightarrow> char" where
  "digit_char n = ''0123456789'' ! nat (n mod 10)"

text \<open>The last \<open>w\<close> decimal digits of a number, most significant first.\<close>

fun pad :: "nat \<Rightarrow> int \<Rightarrow> string" where
  "pad 0 n = []"
| "pad (Suc w) n = pad w (n div 10) @ [digit_char n]"

text \<open>Four digits for the years 0 to 9999, a sign and six digits otherwise.\<close>

definition year_string :: "int \<Rightarrow> string" where
  "year_string y =
     (if 0 \<le> y \<and> y \<le> 9999 then pad 4 y
      else (if y < 0 then ''-'' else ''+'') @ pad 6 \<bar>y\<bar>)"

fun iso_string :: "int \<times> int \<times> int \<Rightarrow> int \<Rightarrow> string" where
  "iso_string (y, m, d) ms =
     year_string y @ ''-'' @ pad 2 m @ ''-'' @ pad 2 d @
     ''T'' @ pad 2 (ms div 3600000) @ '':'' @ pad 2 (ms div 60000 mod 60) @
     '':'' @ pad 2 (ms div 1000 mod 60) @ ''.'' @ pad 3 (ms mod 1000) @ ''Z''"

definition toISOString :: "int \<Rightarrow> string" where
  "toISOString t = iso_string (civil_from_days (t div ms_per_day)) (t mod ms_per_day)"

section \<open>The document store\<close>

text \<open>
  A stored billing line item, typed by the Mongoose schema: \<open>accountId\<close>, \<open>service\<close> and
  \<open>cost\<close> are required, \<open>ingestionDate\<close> has a default. Of the AWS columns the record
  keeps those a service below reads.
\<close>

record LineItem =
  li_userId :: "objectId option"
  li_ingestionJobId :: "objectId option"
  li_ingestionDate :: int
  li_usageStartDate :: "int option"
  li_usageEndDate :: "int option"
  li_accountId :: string
  li_service :: string
  li_region :: "string option"
  li_cost :: real
  li_usageQuantity :: "real option"
  li_usageQuantityNormalized :: "real option"
  li_usageTypeNormalized :: "string option"
  li_resourceId :: "string option"
  li_tags :: "(string \<times> string) list"

datatype agg_type = Daily | Monthly

record Aggregate =
  userId :: "objectId option"
  date :: int
  accountId :: "string option"
  service :: "string option"
  region :: "string option"
  aggregationType :: agg_type
  totalCost :: real
  totalUsageQuantity :: "real option"
  lineItemCount :: "nat option"

datatype job_status = Pending | Processing | Completed | Failed | Partial

record IngestionJob =
  job_userId :: "objectId option"
  status :: job_status
  rowsProcessed :: nat
  rowsTotal :: nat
  rowsSkipped :: nat
  job_errors :: "(nat \<times> string) list"

record db =
  lineItems :: "LineItem list"
  aggregates :: "Aggregate list"
  jobs :: "objectId \<Rightarrow> IngestionJob option"

subsection \<open>Casting a candidate to the schema\<close>

text \<open>
  Mongoose casts a document to the schema before it is written and rejects it when a
  cast or a required check fails: an Invalid Date, a NaN, a text that is no number on a
  Number path, a missing or empty required string, a tag whose key a Mongoose map
  refuses. The String paths of the AWS columns receive a text and accept it as it is.
\<close>

text \<open>
  A text on a Number path is cast with \<open>Number(s)\<close>, and the cast fails when that is NaN.
  \<open>Number\<close> accepts, between optional white space, nothing at all, a decimal literal
  with an optional sign (\<open>Infinity\<close>, or digits with an optional fraction and exponent),
  or an unsigned binary, octal or hexadecimal integer literal.
\<close>

definition trim :: "string \<Rightarrow> string" where
  "trim s = rev (dropWhile is_space (rev (dropWhile is_space s)))"

definition digits_only :: "(char \<Rightarrow> bool) \<Rightarrow> string \<Rightarrow> bool" where
  "digits_only p s = (s \<noteq> [] \<and> list_all p s)"

definition is_hex_digit :: "char \<Rightarrow> bool" where
  "is_hex_digit c = (c \<in> set ''0123456789abcdefABCDEF'')"

definition is_octal_digit :: "char \<Rightarrow> bool" where
  "is_octal_digit c = (c \<in> set ''01234567'')"

definition is_binary_digit :: "char \<Rightarrow> bool" where
  "is_binary_digit c = (c \<in> set ''01'')"

definition exponent_part :: "string \<Rightarrow> bool" where
  "exponent_part w =
     (case w of
        [] \<Rightarrow> True
      | c # r \<Rightarrow> (c = CHR ''e'' \<or> c = CHR ''E'') \<and> digits_only is_digit (snd (take_sign r)))"

definition unsigned_decimal :: "string \<Rightarrow> bool" where
  "unsigned_decimal u =
     (u = ''Infinity'' \<or>
      (let ip = takeWhile is_digit u; v = dropWhile is_digit u in
       case v of
         [] \<Rightarrow> ip \<noteq> []
       | c # r \<Rightarrow>
           if c = CHR ''.''
           then (ip \<noteq> [] \<or> takeWhile is_digit r \<noteq> []) \<and> exponent_part (dropWhile is_digit r)
           else ip \<noteq> [] \<and> exponent_part v))"

definition non_decimal :: "string \<Rightarrow> bool" where
  "non_decimal u =
     (case u of
        z # x # r \<Rightarrow>
          z = CHR ''0'' \<and>
          ((x = CHR ''x'' \<or> x = CHR ''X'') \<and> digits_only is_hex_digit r \<or>
           (x = CHR ''o'' \<or> x = CHR ''O'') \<and> digits_only is_octal_digit r \<or>
           (x = CHR ''b'' \<or> x = CHR ''B'') \<and> digits_only is_binary_digit r)
      | _ \<Rightarrow> False)"

definition numeric_string :: "string \<Rightarrow> bool" where
  "numeric_string s =
     (let t = trim s in t = [] \<or> non_decimal t \<or> unsigned_decimal (snd (take_sign t)))"

text \<open>
  Whether the cast of a Number path succeeds, for the paths the stored record does not
  keep (\<open>blendedRate\<close>, \<open>unblendedRate\<close>, which the normalizer leaves as text).
\<close>

fun castable_number :: "jsval option \<Rightarrow> bool" where
  "castable_number None = True"
| "castable_number (Some (Number n)) = (n \<noteq> NaN)"
| "castable_number (Some (Str s)) = numeric_string s"
| "castable_number (Some v) = False"

fun cast_date :: "jsval option \<Rightarrow> int option option" where
  "cast_date None = Some None"
| "cast_date (Some (DateV (Date t))) = Some (Some t)"
| "cast_date (Some v) = None"

fun cast_number :: "jsval option \<Rightarrow> real option option" where
  "cast_number None = Some None"
| "cast_number (Some (Number (Num r))) = Some (Some r)"
| "cast_number (Some v) = None"

fun cast_string :: "jsval option \<Rightarrow> string option option" where
  "cast_string None = Some None"
| "cast_string (Some (Str s)) = Some (Some s)"
| "cast_string (Some v) = None"

fun cast_id :: "jsval option \<Rightarrow> objectId option option" where
  "cast_id None = Some None"
| "cast_id (Some (ObjId i)) = Some (Some i)"
| "cast_id (Some v) = None"

text \<open>
  A Mongoose map refuses a key that starts with \<open>$\<close> or contains a dot; the cast of the
  \<open>tags\<close> path fails on such a key.
\<close>

definition valid_map_key :: "string \<Rightarrow> bool" where
  "valid_map_key k = (strip_prefix ''$'' k = None \<and> CHR ''.'' \<notin> set k)"

fun cast_tags :: "jsval option \<Rightarrow> (string \<times> string) list option" where
  "cast_tags None = Some []"
| "cast_tags (Some (TagMap m)) = (if list_all valid_map_key (map fst m) then Some m else None)"
| "cast_tags (Some v) = None"

definition cast_LineItem :: "jsobject \<Rightarrow> LineItem option" where
  "cast_LineItem n =
     (case (cast_id (n ''userId''), cast_id (n ''ingestionJobId''), cast_date (n ''ingestionDate''),
            cast_date (n ''usageStartDate''), cast_date (n ''usageEndDate'')) of
        (Some u, Some j, Some (Some ing), Some sd, Some ed) \<Rightarrow>
          (case (cast_string (n ''accountId''), cast_string (n ''service''),
                 cast_string (n ''region''), cast_number (n ''cost'')) of
             (Some (Some a), Some (Some sv), Some rg, Some (Some c)) \<Rightarrow>
               (case (cast_number (n ''usageQuantity''), cast_number (n ''usageQuantityNormalized''),
                      cast_number (n ''blendedCost''), cast_number (n ''unblendedCost'')) of
                  (Some uq, Some uqn, Some bc, Some uc) \<Rightarrow>
                    (case (cast_string (n ''usageTypeNormalized''), cast_string (n ''resourceId''),
                           cast_tags (n ''tags'')) of
                       (Some utn, Some rid, Some tg) \<Rightarrow>
                         if a = [] \<or> sv = [] then None
                         else if castable_number (n ''blendedRate'') \<and>
                                 castable_number (n ''unblendedRate'')
                         then Some \<lparr> li_userId = u, li_ingestionJobId = j, li_ingestionDate = ing,
                                     li_usageStartDate = sd, li_usageEndDate = ed,
                                     li_accountId = a, li_service = sv, li_region = rg, li_cost = c,
                                     li_usageQuantity = uq, li_usageQuantityNormalized = uqn,
                                     li_usageTypeNormalized = utn, li_resourceId = rid,
                                     li_tags = tg \<rparr>
                         else None
                     | _ \<Rightarrow> None)
                | _ \<Rightarrow> None)
           | _ \<Rightarrow> None)
      | _ \<Rightarrow> None)"

subsection \<open>insertMany with ordered: false\<close>

text \<open>
  An unordered bulk insert tries every document. A document that collides with a stored
  one on a unique index is not written; the others are. When at least one collided the
  call fails afterwards with error code 11000.
\<close>

definition unique_conflict :: "('d \<Rightarrow> 'k) list \<Rightarrow> 'd \<Rightarrow> 'd \<Rightarrow> bool" where
  "unique_conflict uks d e = list_ex (\<lambda>k. k d = k e) uks"

fun insert_unordered :: "('d \<Rightarrow> 'd \<Rightarrow> bool) \<Rightarrow> 'd list \<Rightarrow> 'd list \<Rightarrow> bool \<times> 'd list" where
  "insert_unordered dup [] coll = (False, coll)"
| "insert_unordered dup (d # ds) coll =
     (if list_ex (dup d) coll then (True, snd (insert_unordered dup ds coll))
      else insert_unordered dup ds (coll @ [d]))"

datatype write_error = DuplicateKey | WriteFailure string

text \<open>The insert operation of a collection, as the pipeline sees it.\<close>

type_synonym insert_op = "jsobject list \<Rightarrow> LineItem list \<Rightarrow> write_error option \<times> LineItem list"

definition insertMany :: "('d \<Rightarrow> 'k) list \<Rightarrow> 'd list \<Rightarrow> 'd list \<Rightarrow> write_error option \<times> 'd list" where
  "insertMany uks docs coll =
     (case insert_unordered (unique_conflict uks) docs coll of
        (e, c) \<Rightarrow> (if e then Some DuplicateKey else None, c))"

text \<open>
  The unique indexes of the two schemas. \<open>BillingLineItem.js\<close> and \<open>Aggregate.js\<close> declare
  single-field and compound indexes, none of them with \<open>unique: true\<close>; the only unique
  index is the one on \<open>_id\<close>, which is generated fresh for every inserted document.
\<close>

definition BillingLineItem_unique :: "(LineItem \<Rightarrow> string) list" where
  "BillingLineItem_unique = []"

definition Aggregate_unique :: "(Aggregate \<Rightarrow> string) list" where
  "Aggregate_unique = []"

text \<open>
  \<open>BillingLineItem.insertMany(batch, {ordered: false})\<close> for a collection with the
  given unique indexes: the candidates are cast first, and one that fails the cast is
  left out of the write.
\<close>

definition LineItem_insertMany :: "(LineItem \<Rightarrow> 'k) list \<Rightarrow> insert_op" where
  "LineItem_insertMany uks docs coll = insertMany uks (List.map_filter cast_LineItem docs) coll"

definition BillingLineItem_insertMany :: insert_op where
  "BillingLineItem_insertMany = LineItem_insertMany BillingLineItem_unique"

section \<open>The aggregation engine (ingestionService.aggregateData, computeMonthlyAggregates)\<close>

text \<open>
  Groups are kept in a JavaScript \<open>Map\<close> keyed by a string, which iterates in insertion
  order: \<open>if (!m.has(k)) m.set(k, init)\<close> followed by an update of \<open>m.get(k)\<close>.
\<close>

fun group_update :: "string \<Rightarrow> 'v \<Rightarrow> ('v \<Rightarrow> 'v) \<Rightarrow> (string \<times> 'v) list \<Rightarrow> (string \<times> 'v) list" where
  "group_update k init f [] = [(k, f init)]"
| "group_update k init f ((k', v) # m) =
     (if k' = k then (k', f v) # m else (k', v) # group_update k init f m)"

text \<open>\<open>s || d\<close> on a string, on a possibly absent string, and \<open>x || 0\<close> on numbers.\<close>

definition str_or :: "string \<Rightarrow> string \<Rightarrow> string" where
  "str_or s d = (if s = [] then d else s)"

definition opt_str_or :: "string option \<Rightarrow> string \<Rightarrow> string" where
  "opt_str_or s d = (case s of None \<Rightarrow> d | Some x \<Rightarrow> str_or x d)"

definition num_or0 :: "real \<Rightarrow> real" where
  "num_or0 x = (if x = 0 then 0 else x)"

definition opt_num_or0 :: "real option \<Rightarrow> real" where
  "opt_num_or0 x = (case x of None \<Rightarrow> 0 | Some r \<Rightarrow> num_or0 r)"

definition opt_count_or0 :: "nat option \<Rightarrow> nat" where
  "opt_count_or0 x = (case x of None \<Rightarrow> 0 | Some n \<Rightarrow> n)"

text \<open>\<open>new Date(item.usageStartDate || item.ingestionDate)\<close>, then \<open>setHours(0, 0, 0, 0)\<close>.\<close>

definition item_day :: "LineItem \<Rightarrow> int" where
  "item_day i =
     startOfDay (case li_usageStartDate i of Some t \<Rightarrow> t | None \<Rightarrow> li_ingestionDate i)"

definition daily_key :: "LineItem \<Rightarrow> string" where
  "daily_key i =
     toISOString (item_day i) @ ''_'' @ str_or (li_accountId i) ''unknown'' @ ''_'' @
     str_or (li_service i) ''unknown'' @ ''_'' @ opt_str_or (li_region i) ''unknown''"

definition new_daily :: "objectId \<Rightarrow> LineItem \<Rightarrow> Aggregate" where
  "new_daily u i =
     \<lparr> userId = Some u, date = item_day i,
       accountId = Some (str_or (li_accountId i) ''unknown''),
       service = Some (str_or (li_service i) ''unknown''),
       region = Some (opt_str_or (li_region i) ''unknown''),
       aggregationType = Daily, totalCost = 0, totalUsageQuantity = Some 0,
       lineItemCount = Some 0 \<rparr>"

definition add_to_daily :: "LineItem \<Rightarrow> Aggregate \<Rightarrow> Aggregate" where
  "add_to_daily i agg =
     agg\<lparr> totalCost := totalCost agg + num_or0 (li_cost i),
          totalUsageQuantity :=
            map_option (\<lambda>q. q + opt_num_or0 (li_usageQuantityNormalized i)) (totalUsageQuantity agg),
          lineItemCount := map_option (\<lambda>c. c + 1) (lineItemCount agg) \<rparr>"

definition dailyAggregates :: "objectId \<Rightarrow> LineItem list \<Rightarrow> (string \<times> Aggregate) list" where
  "dailyAggregates u items =
     fold (\<lambda>i m. group_update (daily_key i) (new_daily u i) (add_to_daily i) m) items []"

text \<open>\<open>findOneAndUpdate(filter on the six grouping fields, agg, {upsert: true})\<close>.\<close>

definition same_tuple :: "Aggregate \<Rightarrow> Aggregate \<Rightarrow> bool" where
  "same_tuple a b =
     (userId a = userId b \<and> date a = date b \<and> accountId a = accountId b \<and>
      service a = service b \<and> region a = region b \<and> aggregationType a = aggregationType b)"

fun findOneAndUpdate_upsert :: "Aggregate \<Rightarrow> Aggregate list \<Rightarrow> Aggregate list" where
  "findOneAndUpdate_upsert a [] = [a]"
| "findOneAndUpdate_upsert a (x # xs) =
     (if same_tuple a x then a # xs else x # findOneAndUpdate_upsert a xs)"

text \<open>
  The bulk insert of freshly computed aggregates, with the upsert loop taken on error
  code 11000. Any other error is rethrown by the source; the store modelled here raises
  none.
\<close>

definition save_aggregates :: "Aggregate list \<Rightarrow> Aggregate list \<Rightarrow> Aggregate list" where
  "save_aggregates aggs coll =
     (case insertMany Aggregate_unique aggs coll of
        (None, c) \<Rightarrow> c
      | (Some DuplicateKey, c) \<Rightarrow> fold findOneAndUpdate_upsert aggs c
      | (Some (WriteFailure msg), c) \<Rightarrow> c)"

definition monthly_key :: "Aggregate \<Rightarrow> string" where
  "monthly_key d =
     toISOString (startOfMonth (date d)) @ ''_'' @ opt_str_or (accountId d) ''unknown'' @ ''_'' @
     opt_str_or (service d) ''unknown'' @ ''_'' @ opt_str_or (region d) ''unknown''"

definition new_monthly :: "Aggregate \<Rightarrow> Aggregate" where
  "new_monthly d =
     \<lparr> userId = userId d, date = startOfMonth (date d),
       accountId = Some (opt_str_or (accountId d) ''unknown''),
       service = Some (opt_str_or (service d) ''unknown''),
       region = Some (opt_str_or (region d) ''unknown''),
       aggregationType = Monthly, totalCost = 0, totalUsageQuantity = Some 0,
       lineItemCount = Some 0 \<rparr>"

definition add_to_monthly :: "Aggregate \<Rightarrow> Aggregate \<Rightarrow> Aggregate" where
  "add_to_monthly d m =
     m\<lparr> totalCost := totalCost m + num_or0 (totalCost d),
        totalUsageQuantity :=
          map_option (\<lambda>q. q + opt_num_or0 (totalUsageQuantity d)) (totalUsageQuantity m),
        lineItemCount := map_option (\<lambda>c. c + opt_count_or0 (lineItemCount d)) (lineItemCount m) \<rparr>"

definition monthlyMap :: "Aggregate list \<Rightarrow> (string \<times> Aggregate) list" where
  "monthlyMap dailyAggs =
     fold (\<lambda>d m. group_update (monthly_key d) (new_monthly d) (add_to_monthly d) m) dailyAggs []"

definition is_daily_of :: "objectId \<Rightarrow> Aggregate \<Rightarrow> bool" where
  "is_daily_of u a = (userId a = Some u \<and> aggregationType a = Daily)"

definition is_monthly_of :: "objectId \<Rightarrow> Aggregate \<Rightarrow> bool" where
  "is_monthly_of u a = (userId a = Some u \<and> aggregationType a = Monthly)"

definition computeMonthlyAggregates :: "db \<Rightarrow> objectId option \<Rightarrow> db" where
  "computeMonthlyAggregates s uo =
     (case uo of
        None \<Rightarrow> s
      | Some u \<Rightarrow>
          (let dailyAggs = filter (is_daily_of u) (aggregates s) in
           if dailyAggs = [] then s
           else
             (let kept = filter (\<lambda>a. \<not> is_monthly_of u a) (aggregates s);
                  monthlyAggs = map snd (monthlyMap dailyAggs)
              in s\<lparr> aggregates :=
                       (if monthlyAggs \<noteq> [] then save_aggregates monthlyAggs kept else kept) \<rparr>)))"

definition aggregateData :: "db \<Rightarrow> objectId \<Rightarrow> db" where
  "aggregateData s jobId =
     (case jobs s jobId of
        None \<Rightarrow> s
      | Some job \<Rightarrow>
          (case job_userId job of
             None \<Rightarrow> s
           | Some u \<Rightarrow>
               (let items = filter (\<lambda>i. li_userId i = Some u) (lineItems s) in
                if items = [] then s
                else
                  (let kept = filter (\<lambda>a. \<not> is_daily_of u a) (aggregates s);
                       aggs = map snd (dailyAggregates u items)
                   in computeMonthlyAggregates
                        (s\<lparr> aggregates := (if aggs \<noteq> [] then save_aggregates aggs kept else kept) \<rparr>)
                        (Some u)))))"

section \<open>The ingestion pipeline (ingestionService.processCSVFile)\<close>

text \<open>
  The listeners of the parser are async functions, and nobody awaits what they return.
  A listener runs until its first \<open>await\<close>; the rest of it runs when the awaited operation
  has completed, and the parser delivers its next event in between. A run is therefore
  driven by the events in the order the event loop delivers them: the records, the end
  or the error of the stream, and the completions of the operations in flight. That
  order is decided by the runtime, not by the function, and is an input here.

  Pausing the source stream holds back the part of the file not yet read, not the
  records the parser emits from the part already read. The state records whether the
  stream is paused; which events arrive is left to the event list.
\<close>

datatype event = Data row | End | Failure string | Settle nat

text \<open>
  The operations a listener awaits: the bulk insert of a chunk in the data listener,
  and in the end listener the bulk insert of the rest, \<open>job.save()\<close> and
  \<open>aggregateData(jobId)\<close>; in the error listener \<open>job.save()\<close>. A bulk insert reads its
  argument when it is called, so it carries the buffer as it was then.
\<close>

datatype operation =
    ChunkWrite "jsobject list"
  | FinalWrite "jsobject list"
  | SaveJob
  | Aggregation
  | SaveFailed string

datatype run_error = JobNotFound | UserRequired | StreamError string

record run_result =
  processed :: nat
  skipped :: nat
  total :: nat

record run_options =
  opt_chunkSize :: "nat option"
  opt_userId :: "objectId option"

text \<open>
  The variables the listeners share (\<open>rowCount\<close>, \<open>processedCount\<close>, \<open>skippedCount\<close>,
  \<open>errors\<close>, \<open>batch\<close>, the job document), the stream, the operations in flight, the store,
  and the promise the function returns: pending, resolved with the counters, or rejected.
\<close>

record run_state =
  rowCount :: nat
  processedCount :: nat
  skippedCount :: nat
  errors :: "(nat \<times> string) list"
  batch :: "jsobject list"
  paused :: bool
  closed :: bool
  pending :: "operation list"
  job_doc :: IngestionJob
  store :: db
  outcome :: "(run_error + run_result) option"

definition skip_row :: "string \<Rightarrow> run_state \<Rightarrow> run_state" where
  "skip_row msg st =
     st\<lparr> skippedCount := skippedCount st + 1, errors := errors st @ [(rowCount st, msg)] \<rparr>"

text \<open>
  The data listener up to its \<open>await\<close>: the row is counted, normalized and checked, then
  pushed on the buffer; with a full buffer the stream is paused and the bulk insert of
  the buffer is started.
\<close>

definition start_flush :: "run_state \<Rightarrow> run_state" where
  "start_flush st = st\<lparr> paused := True, pending := pending st @ [ChunkWrite (batch st)] \<rparr>"

definition on_data :: "runtime \<Rightarrow> nat \<Rightarrow> objectId \<Rightarrow> objectId \<Rightarrow> row \<Rightarrow> run_state \<Rightarrow> run_state" where
  "on_data rt chunkSize jobId uid r st0 =
     (let st = st0\<lparr> rowCount := rowCount st0 + 1 \<rparr>;
          normalized = (normalizeLineItem rt r jobId)(''userId'' \<mapsto> ObjId uid)
      in if missing_required normalized then skip_row ''Missing required fields'' st
         else
           (let st' = st\<lparr> batch := batch st @ [normalized] \<rparr> in
            if chunkSize \<le> length (batch st') then start_flush st' else st'))"

text \<open>
  The data listener after its \<open>await\<close>. The counters are advanced by the length the
  buffer has now, and the buffer is emptied now. A duplicate-key error adds that length
  to the skipped count. Any other error is rethrown, lands in the listener's outer
  \<open>catch\<close> and is recorded against the row counted last; the buffer is kept and the
  stream is not resumed.
\<close>

definition written :: "LineItem list \<Rightarrow> run_state \<Rightarrow> run_state" where
  "written c st = st\<lparr> store := (store st)\<lparr> lineItems := c \<rparr> \<rparr>"

definition chunk_written :: "insert_op \<Rightarrow> jsobject list \<Rightarrow> run_state \<Rightarrow> run_state" where
  "chunk_written ins docs st =
     (case ins docs (lineItems (store st)) of
        (None, c) \<Rightarrow>
          (written c st)\<lparr> processedCount := processedCount st + length (batch st), batch := [],
                          paused := False \<rparr>
      | (Some DuplicateKey, c) \<Rightarrow>
          (written c st)\<lparr> skippedCount := skippedCount st + length (batch st), batch := [],
                          paused := False \<rparr>
      | (Some (WriteFailure msg), c) \<Rightarrow> skip_row msg (written c st))"

text \<open>
  The end listener. With a non-empty buffer it starts the bulk insert of the buffer;
  after that, or at once, it fills in the job document and saves it; after the save it
  starts the aggregation when something was processed; at last it resolves the promise
  with the counters as they are then. An error of the bulk insert other than a duplicate
  key is only logged.
\<close>

definition finish_job :: "run_state \<Rightarrow> IngestionJob \<Rightarrow> IngestionJob" where
  "finish_job st job =
     job\<lparr> status := (if 0 < processedCount st then Completed else Failed),
          rowsProcessed := processedCount st, rowsTotal := rowCount st,
          rowsSkipped := skippedCount st, job_errors := take 100 (errors st) \<rparr>"

definition update_job :: "run_state \<Rightarrow> run_state" where
  "update_job st =
     st\<lparr> job_doc := finish_job st (job_doc st), pending := pending st @ [SaveJob] \<rparr>"

definition on_end :: "run_state \<Rightarrow> run_state" where
  "on_end st =
     (if batch st = [] then update_job st
      else st\<lparr> pending := pending st @ [FinalWrite (batch st)] \<rparr>)"

definition final_written :: "insert_op \<Rightarrow> jsobject list \<Rightarrow> run_state \<Rightarrow> run_state" where
  "final_written ins docs st =
     update_job
       (case ins docs (lineItems (store st)) of
          (None, c) \<Rightarrow> (written c st)\<lparr> processedCount := processedCount st + length (batch st) \<rparr>
        | (Some DuplicateKey, c) \<Rightarrow>
            (written c st)\<lparr> skippedCount := skippedCount st + length (batch st) \<rparr>
        | (Some (WriteFailure msg), c) \<Rightarrow> written c st)"

definition save_job :: "objectId \<Rightarrow> run_state \<Rightarrow> run_state" where
  "save_job jobId st =
     st\<lparr> store := (store st)\<lparr> jobs := (jobs (store st))(jobId \<mapsto> job_doc st) \<rparr> \<rparr>"

definition resolve :: "run_state \<Rightarrow> run_state" where
  "resolve st =
     st\<lparr> outcome := Some (Inr \<lparr> processed = processedCount st, skipped = skippedCount st,
                                  total = rowCount st \<rparr>) \<rparr>"

definition job_saved :: "objectId \<Rightarrow> run_state \<Rightarrow> run_state" where
  "job_saved jobId st =
     (let st' = save_job jobId st in
      if 0 < processedCount st' then st'\<lparr> pending := pending st' @ [Aggregation] \<rparr>
      else resolve st')"

definition aggregated :: "objectId \<Rightarrow> run_state \<Rightarrow> run_state" where
  "aggregated jobId st = resolve (st\<lparr> store := aggregateData (store st) jobId \<rparr>)"

text \<open>
  The error listener marks the job as failed, adds the error to the job's own list and
  saves the job; after the save it rejects the promise.
\<close>

definition on_error :: "string \<Rightarrow> run_state \<Rightarrow> run_state" where
  "on_error msg st =
     st\<lparr> job_doc := (job_doc st)\<lparr> status := Failed,
                                   job_errors := job_errors (job_doc st) @ [(rowCount st, msg)] \<rparr>,
         pending := pending st @ [SaveFailed msg] \<rparr>"

definition failure_saved :: "objectId \<Rightarrow> string \<Rightarrow> run_state \<Rightarrow> run_state" where
  "failure_saved jobId msg st = (save_job jobId st)\<lparr> outcome := Some (Inl (StreamError msg)) \<rparr>"

text \<open>The rest of the listener that awaited an operation, run when the operation completes.\<close>

fun settle :: "insert_op \<Rightarrow> objectId \<Rightarrow> operation \<Rightarrow> run_state \<Rightarrow> run_state" where
  "settle ins jobId (ChunkWrite docs) st = chunk_written ins docs st"
| "settle ins jobId (FinalWrite docs) st = final_written ins docs st"
| "settle ins jobId SaveJob st = job_saved jobId st"
| "settle ins jobId Aggregation st = aggregated jobId st"
| "settle ins jobId (SaveFailed msg) st = failure_saved jobId msg st"

text \<open>
  One event. After its end or its error the parser emits nothing more. \<open>Settle k\<close> is the
  completion of the operation at position \<open>k\<close> of those in flight: the operation takes
  effect on the store and its listener goes on, in one step.
\<close>

fun deliver ::
    "insert_op \<Rightarrow> runtime \<Rightarrow> nat \<Rightarrow> objectId \<Rightarrow> objectId \<Rightarrow> event \<Rightarrow> run_state \<Rightarrow> run_state" where
  "deliver ins rt chunkSize jobId uid (Data r) st =
     (if closed st then st else on_data rt chunkSize jobId uid r st)"
| "deliver ins rt chunkSize jobId uid End st =
     (if closed st then st else on_end (st\<lparr> closed := True \<rparr>))"
| "deliver ins rt chunkSize jobId uid (Failure msg) st =
     (if closed st then st else on_error msg (st\<lparr> closed := True \<rparr>))"
| "deliver ins rt chunkSize jobId uid (Settle k) st =
     (if k < length (pending st)
      then settle ins jobId (pending st ! k)
             (st\<lparr> pending := take k (pending st) @ drop (Suc k) (pending st) \<rparr>)
      else st)"

definition start_state :: "IngestionJob \<Rightarrow> db \<Rightarrow> run_state" where
  "start_state job s =
     \<lparr> rowCount = 0, processedCount = 0, skippedCount = 0, errors = [], batch = [],
       paused = False, closed = False, pending = [], job_doc = job, store = s,
       outcome = None \<rparr>"

definition run_stream ::
    "insert_op \<Rightarrow> runtime \<Rightarrow> nat \<Rightarrow> objectId \<Rightarrow> objectId \<Rightarrow> event list \<Rightarrow> run_state \<Rightarrow> run_state" where
  "run_stream ins rt chunkSize jobId uid evs st = fold (deliver ins rt chunkSize jobId uid) evs st"

text \<open>
  The function: the job is looked up, the user resolved, the job saved as processing,
  and the stream run. The result is the state of the returned promise when the events
  are used up (\<open>None\<close> while it is pending) and the store as it is then.
\<close>

definition processCSVFile ::
    "insert_op \<Rightarrow> runtime \<Rightarrow> event list \<Rightarrow> objectId \<Rightarrow> run_options \<Rightarrow> db \<Rightarrow>
     (run_error + run_result) option \<times> db" where
  "processCSVFile ins rt evs jobId opts s =
     (case jobs s jobId of
        None \<Rightarrow> (Some (Inl JobNotFound), s)
      | Some job0 \<Rightarrow>
          (case (case opt_userId opts of Some u \<Rightarrow> Some u | None \<Rightarrow> job_userId job0) of
             None \<Rightarrow> (Some (Inl UserRequired), s)
           | Some uid \<Rightarrow>
               (let chunkSize = (case opt_chunkSize opts of None \<Rightarrow> 1000 | Some c \<Rightarrow> c);
                    job = job0\<lparr> status := Processing \<rparr>;
                    st = run_stream ins rt chunkSize jobId uid evs
                           (start_state job (s\<lparr> jobs := (jobs s)(jobId \<mapsto> job) \<rparr>))
                in (outcome st, store st))))"

section \<open>Plain objects used as dictionaries\<close>

text \<open>
  \<open>groups[key]\<close> on a plain object also finds the properties inherited from
  \<open>Object.prototype\<close>. For such a key the test \<open>!groups[key]\<close> is false, no array is
  stored, and the following \<open>.push\<close> raises a TypeError.
\<close>

definition Object_prototype_names :: "string list" where
  "Object_prototype_names =
     [''constructor'', ''__defineGetter__'', ''__defineSetter__'', ''hasOwnProperty'',
      ''__lookupGetter__'', ''__lookupSetter__'', ''isPrototypeOf'', ''propertyIsEnumerable'',
      ''toString'', ''valueOf'', ''__proto__'', ''toLocaleString'']"

datatype js_error = TypeError | UserIdRequired

text \<open>\<open>if (!g[k]) g[k] = []; g[k].push(x)\<close> for every element, in order.\<close>

fun push_all :: "('a \<Rightarrow> string) \<Rightarrow> ('a \<Rightarrow> 'b) \<Rightarrow> 'a list \<Rightarrow> (string \<times> 'b list) list \<Rightarrow>
    js_error + (string \<times> 'b list) list" where
  "push_all key val [] g = Inr g"
| "push_all key val (x # xs) g =
     (if key x \<in> set Object_prototype_names then Inl TypeError
      else push_all key val xs (group_update (key x) [] (\<lambda>l. l @ [val x]) g))"

text \<open>
  \<open>Object.entries\<close> lists the keys that are array indices first, in ascending numeric
  order, and then the other keys in insertion order.
\<close>

definition is_array_index :: "string \<Rightarrow> bool" where
  "is_array_index k =
     (k \<noteq> [] \<and> list_all is_digit k \<and> (k = ''0'' \<or> hd k \<noteq> CHR ''0'') \<and>
      digits_val k < 4294967295)"

definition Object_entries :: "(string \<times> 'v) list \<Rightarrow> (string \<times> 'v) list" where
  "Object_entries m =
     sort_key (\<lambda>kv. digits_val (fst kv)) (filter (\<lambda>kv. is_array_index (fst kv)) m) @
     filter (\<lambda>kv. \<not> is_array_index (fst kv)) m"

text \<open>\<open>s.split(c)\<close> and an index read that may be \<open>undefined\<close>.\<close>

fun split_on :: "char \<Rightarrow> string \<Rightarrow> string list" where
  "split_on c [] = [[]]"
| "split_on c (x # xs) =
     (if x = c then [] # split_on c xs
      else (case split_on c xs of [] \<Rightarrow> [[x]] | p # ps \<Rightarrow> (x # p) # ps))"

definition nth_opt :: "'a list \<Rightarrow> nat \<Rightarrow> 'a option" where
  "nth_opt xs i = (if i < length xs then Some (xs ! i) else None)"

section \<open>The anomaly detector (anomalyDetectionService.detectAnomalies)\<close>

record detect_options =
  d_accountId :: "string option"
  d_service :: "string option"
  d_lookbackDays :: "int option"
  d_threshold :: "real option"
  d_userId :: "objectId option"

text \<open>A data point: a daily aggregate row, or an object built by the fallback.\<close>

record point =
  p_date :: int
  p_accountId :: "string option"
  p_service :: "string option"
  p_region :: "string option"
  p_totalCost :: real

datatype anomaly_type = Spike | Drop | UnusualPattern

datatype severity_level = Low | Medium | High | Critical

text \<open>
  The anomaly object of the source without its \<open>description\<close>, a sentence formatted from
  the other fields. \<open>variancePercent\<close> divides by the mean and is not a finite number
  when the mean is 0; it is \<open>None\<close> then.
\<close>

record Anomaly =
  atype :: anomaly_type
  severity :: severity_level
  an_userId :: "objectId option"
  an_accountId :: "string option"
  an_service :: "string option"
  an_region :: "string option"
  an_date :: int
  an_cost :: real
  expectedCost :: real
  variance :: real
  variancePercent :: "real option"
  zScore :: real

text \<open>A filter clause that is added to a query only when the option is truthy.\<close>

definition wanted :: "string option \<Rightarrow> string option" where
  "wanted x = (case x of None \<Rightarrow> None | Some v \<Rightarrow> if v = [] then None else Some v)"

definition point_of :: "Aggregate \<Rightarrow> point" where
  "point_of a =
     \<lparr> p_date = date a, p_accountId = accountId a, p_service = service a, p_region = region a,
       p_totalCost = totalCost a \<rparr>"

text \<open>The query on daily aggregates, sorted by date (ties keep their stored order).\<close>

definition find_daily :: "detect_options \<Rightarrow> int \<Rightarrow> int \<Rightarrow> Aggregate list \<Rightarrow> Aggregate list" where
  "find_daily opts startDate endDate aggs =
     sort_key date
       (filter (\<lambda>a. startDate \<le> date a \<and> date a \<le> endDate \<and> aggregationType a = Daily \<and>
                     (case d_userId opts of None \<Rightarrow> True | Some u \<Rightarrow> userId a = Some u) \<and>
                     (case wanted (d_accountId opts) of None \<Rightarrow> True | Some x \<Rightarrow> accountId a = Some x) \<and>
                     (case wanted (d_service opts) of None \<Rightarrow> True | Some x \<Rightarrow> service a = Some x))
          aggs)"

text \<open>
  The fallback query on line items. The clause \<open>userId: options.userId\<close> is always
  present; with no user given it matches the items that have none.
\<close>

definition find_items :: "detect_options \<Rightarrow> int \<Rightarrow> int \<Rightarrow> LineItem list \<Rightarrow> LineItem list" where
  "find_items opts startDate endDate items =
     filter (\<lambda>i. li_userId i = d_userId opts \<and>
                  (case li_usageStartDate i of None \<Rightarrow> False | Some t \<Rightarrow> startDate \<le> t \<and> t \<le> endDate) \<and>
                  (case wanted (d_accountId opts) of None \<Rightarrow> True | Some x \<Rightarrow> li_accountId i = x) \<and>
                  (case wanted (d_service opts) of None \<Rightarrow> True | Some x \<Rightarrow> li_service i = x))
       items"

definition fallback_key :: "LineItem \<Rightarrow> string" where
  "fallback_key i =
     toISOString (item_day i) @ ''_'' @ str_or (li_accountId i) ''all'' @ ''_'' @
     str_or (li_service i) ''all'' @ ''_'' @ opt_str_or (li_region i) ''all''"

definition new_point :: "LineItem \<Rightarrow> point" where
  "new_point i =
     \<lparr> p_date = item_day i, p_accountId = Some (li_accountId i), p_service = Some (li_service i),
       p_region = li_region i, p_totalCost = 0 \<rparr>"

definition add_to_point :: "LineItem \<Rightarrow> point \<Rightarrow> point" where
  "add_to_point i p = p\<lparr> p_totalCost := p_totalCost p + num_or0 (li_cost i) \<rparr>"

definition dailyMap :: "LineItem list \<Rightarrow> (string \<times> point) list" where
  "dailyMap items =
     fold (\<lambda>i m. group_update (fallback_key i) (new_point i) (add_to_point i) m) items []"

definition group_key :: "point \<Rightarrow> string" where
  "group_key p =
     opt_str_or (p_accountId p) ''all'' @ ''_'' @ opt_str_or (p_service p) ''all'' @ ''_'' @
     opt_str_or (p_region p) ''all''"

definition mean_of :: "real list \<Rightarrow> real" where
  "mean_of costs = sum_list costs / real (length costs)"

definition variance_of :: "real list \<Rightarrow> real" where
  "variance_of costs =
     sum_list (map (\<lambda>c. (c - mean_of costs) ^ 2) costs) / real (length costs)"

definition stdDev_of :: "real list \<Rightarrow> real" where
  "stdDev_of costs = sqrt (variance_of costs)"

definition not_all :: "string option \<Rightarrow> string option" where
  "not_all x = (case x of None \<Rightarrow> None | Some v \<Rightarrow> if v = ''all'' then None else Some v)"

text \<open>The body of \<open>groupData.forEach\<close> for one data point.\<close>

definition check_point :: "real \<Rightarrow> objectId option \<Rightarrow> string \<Rightarrow> real \<Rightarrow> real \<Rightarrow> point \<Rightarrow> Anomaly list" where
  "check_point thr uid key mean stdDev agg =
     (let z = \<bar>(p_totalCost agg - mean) / stdDev\<bar> in
      if thr < z then
        (let pieces = split_on (CHR ''_'') key in
         [\<lparr> atype = (if mean < p_totalCost agg then Spike else Drop),
            severity = (if 4 < z then Critical else if 3 < z then High else Medium),
            an_userId = uid,
            an_accountId = not_all (nth_opt pieces 0),
            an_service = not_all (nth_opt pieces 1),
            an_region = not_all (nth_opt pieces 2),
            an_date = p_date agg,
            an_cost = p_totalCost agg,
            expectedCost = mean,
            variance = p_totalCost agg - mean,
            variancePercent = (if mean = 0 then None else Some ((p_totalCost agg - mean) / mean * 100)),
            zScore = z \<rparr>])
      else [])"

text \<open>The body of the loop over the groups.\<close>

definition check_group :: "real \<Rightarrow> objectId option \<Rightarrow> string \<times> point list \<Rightarrow> Anomaly list" where
  "check_group thr uid g =
     (let costs = map p_totalCost (snd g) in
      if stdDev_of costs = 0 then []
      else concat (map (check_point thr uid (fst g) (mean_of costs) (stdDev_of costs)) (snd g)))"

text \<open>\<open>startDate.setDate(startDate.getDate() - lookbackDays)\<close>, with 30 days by default.\<close>

definition lookback_start :: "detect_options \<Rightarrow> runtime \<Rightarrow> int" where
  "lookback_start opts rt =
     now rt - (case d_lookbackDays opts of None \<Rightarrow> 30 | Some n \<Rightarrow> n) * ms_per_day"

definition load_points :: "detect_options \<Rightarrow> runtime \<Rightarrow> db \<Rightarrow> point list" where
  "load_points opts rt s =
     (if find_daily opts (lookback_start opts rt) (now rt) (aggregates s) = []
      then map snd (dailyMap (find_items opts (lookback_start opts rt) (now rt) (lineItems s)))
      else map point_of (find_daily opts (lookback_start opts rt) (now rt) (aggregates s)))"

text \<open>
  The anomalies the function returns. Saving them and marking line items afterwards
  does not change the returned list.
\<close>

definition detectAnomalies :: "detect_options \<Rightarrow> runtime \<Rightarrow> db \<Rightarrow> js_error + Anomaly list" where
  "detectAnomalies opts rt s =
     (let points = load_points opts rt s in
      if length points < 7 then Inr []
      else
        (case push_all group_key id points [] of
           Inl e \<Rightarrow> Inl e
         | Inr groups \<Rightarrow>
             Inr (concat (map (check_group (case d_threshold opts of None \<Rightarrow> 5 / 2 | Some t \<Rightarrow> t)
                                  (d_userId opts))
                            (Object_entries groups)))))"

section \<open>Reserved-instance recommendations (recommendationService.detectRIOpportunities)\<close>

datatype rec_type =
    Rightsizing | ReservedInstance | SavingsPlan | StorageTiering | IdleResourceCleanup
  | DataTransferOptimization | UnattachedEbs | UnattachedEip

datatype level = LLow | LMedium | LHigh | LCritical

record Recommendation =
  rec_type :: rec_type
  rec_priority :: level
  rec_accountId :: string
  rec_service :: string
  rec_title :: string
  currentCost :: real
  estimatedSavings :: real
  estimatedSavingsPercent :: real
  implementationEffort :: level
  actionItems :: "string list"
  meta_avgMonthlyCost :: real
  meta_coefficientOfVariation :: real

text \<open>
  The filter \<open>generateRecommendations\<close> builds from its options and hands to every
  detector: the user, a range on \<open>usageStartDate\<close> and, when given, the account.
\<close>

record rec_options =
  r_accountId :: "string option"
  r_lookbackDays :: "int option"
  r_userId :: "objectId option"

record rec_query =
  q_userId :: objectId
  q_usageStartDate :: "int \<times> int"
  q_accountId :: "string option"

definition build_query :: "rec_options \<Rightarrow> runtime \<Rightarrow> js_error + rec_query" where
  "build_query opts rt =
     (case r_userId opts of
        None \<Rightarrow> Inl UserIdRequired
      | Some u \<Rightarrow>
          Inr \<lparr> q_userId = u,
                q_usageStartDate =
                  (now rt - (case r_lookbackDays opts of None \<Rightarrow> 30 | Some n \<Rightarrow> n) * ms_per_day, now rt),
                q_accountId = wanted (r_accountId opts) \<rparr>)"

definition to_lower :: "char \<Rightarrow> char" where
  "to_lower c =
     (if c \<in> set ''ABCDEFGHIJKLMNOPQRSTUVWXYZ'' then char_of (of_char c + (32 :: nat)) else c)"

fun contains :: "string \<Rightarrow> string \<Rightarrow> bool" where
  "contains p [] = (p = [])"
| "contains p (c # cs) = (strip_prefix p (c # cs) \<noteq> None \<or> contains p cs)"

text \<open>\<open>{ $regex: /EC2/i }\<close> on a path that may be absent.\<close>

definition regex_EC2_i :: "string option \<Rightarrow> bool" where
  "regex_EC2_i v = (case v of None \<Rightarrow> False | Some s \<Rightarrow> contains ''ec2'' (map to_lower s))"

text \<open>
  A range clause on a path: a document without the path does not match. The Aggregate
  schema declares \<open>date\<close> and no \<open>usageStartDate\<close>, so an aggregate never has the path.
\<close>

definition in_range :: "int \<times> int \<Rightarrow> int option \<Rightarrow> bool" where
  "in_range r v = (case v of None \<Rightarrow> False | Some t \<Rightarrow> fst r \<le> t \<and> t \<le> snd r)"

definition Aggregate_usageStartDate :: "Aggregate \<Rightarrow> int option" where
  "Aggregate_usageStartDate a = None"

text \<open>
  \<open>Aggregate.find({...query, service: {$regex: /EC2/i}, aggregationType: 'monthly'})\<close>.
  Mongoose's \<open>strictQuery\<close> setting decides what happens to a clause on a path outside
  the schema: when on, the clause is dropped from the filter; when off (the default of
  Mongoose 5, 7 and 8), it is sent to the database as written.
\<close>

definition find_monthly_EC2 :: "bool \<Rightarrow> rec_query \<Rightarrow> Aggregate list \<Rightarrow> Aggregate list" where
  "find_monthly_EC2 strictQuery q aggs =
     filter (\<lambda>a. userId a = Some (q_userId q) \<and>
                  (strictQuery \<or> in_range (q_usageStartDate q) (Aggregate_usageStartDate a)) \<and>
                  (case q_accountId q of None \<Rightarrow> True | Some x \<Rightarrow> accountId a = Some x) \<and>
                  regex_EC2_i (service a) \<and> aggregationType a = Monthly)
       aggs"

text \<open>The property name \<open>accountSpend[item.accountId]\<close> uses for an account.\<close>

definition account_name :: "Aggregate \<Rightarrow> string" where
  "account_name a = (case accountId a of None \<Rightarrow> ''undefined'' | Some x \<Rightarrow> x)"

definition ri_recommendation :: "string \<times> real list \<Rightarrow> Recommendation list" where
  "ri_recommendation e =
     (let avgMonthlyCost = mean_of (snd e);
          coefficientOfVariation = stdDev_of (snd e) / avgMonthlyCost
      in if 500 < avgMonthlyCost \<and> coefficientOfVariation < 2 / 10 then
           [\<lparr> rec_type = ReservedInstance, rec_priority = LHigh, rec_accountId = fst e,
              rec_service = ''EC2'', rec_title = ''Consider Reserved Instances'',
              currentCost = avgMonthlyCost, estimatedSavings = avgMonthlyCost * (5 / 10),
              estimatedSavingsPercent = 50, implementationEffort = LLow,
              actionItems = [''Analyze instance usage patterns'',
                             ''Purchase 1-year or 3-year Reserved Instances'',
                             ''Consider Savings Plans for flexibility''],
              meta_avgMonthlyCost = avgMonthlyCost,
              meta_coefficientOfVariation = coefficientOfVariation \<rparr>]
         else [])"

definition detectRIOpportunities :: "bool \<Rightarrow> rec_query \<Rightarrow> db \<Rightarrow> js_error + Recommendation list" where
  "detectRIOpportunities strictQuery q s =
     (case push_all account_name totalCost (find_monthly_EC2 strictQuery q (aggregates s)) [] of
        Inl e \<Rightarrow> Inl e
      | Inr accountSpend \<Rightarrow> Inr (concat (map ri_recommendation (Object_entries accountSpend))))"

section \<open>Auxiliary predicates\<close>

text \<open>What the column-mapping loop leaves in a field: nothing, or a non-empty string.\<close>

definition cell :: "jsval option \<Rightarrow> bool" where
  "cell v = (v = None \<or> (\<exists>s. v = Some (Str s) \<and> s \<noteq> []))"

definition numeric :: "jsval option \<Rightarrow> bool" where
  "numeric v = (v = None \<or> (\<exists>x. v = Some (Number x)))"

text \<open>A daily row under construction: owned by the user, with both optional metrics set.\<close>

definition fresh_daily :: "objectId \<Rightarrow> Aggregate \<Rightarrow> bool" where
  "fresh_daily u a = (is_daily_of u a \<and> totalUsageQuantity a \<noteq> None \<and> lineItemCount a \<noteq> None)"

text \<open>
  The group of a line item in the detector's fallback: the start of its day as
  \<open>toISOString\<close> writes it, and its account, service and region with \<open>all\<close> for an
  absent or empty one.
\<close>

definition group_of :: "LineItem \<Rightarrow> string \<times> string \<times> string \<times> string" where
  "group_of i =
     (toISOString (item_day i), str_or (li_accountId i) ''all'', str_or (li_service i) ''all'',
      opt_str_or (li_region i) ''all'')"

text \<open>The same for a data point, read from the fields the fallback stores in it.\<close>

definition point_group :: "point \<Rightarrow> string \<times> string \<times> string \<times> string" where
  "point_group p =
     (toISOString (p_date p), opt_str_or (p_accountId p) ''all'', opt_str_or (p_service p) ''all'',
      opt_str_or (p_region p) ''all'')"

text \<open>A text without the separator of the composite keys.\<close>

definition no_underscore :: "string \<Rightarrow> bool" where
  "no_underscore x = (CHR ''_'' \<notin> set x)"

text \<open>
  A run in which the error listener has not run: no save of a failed job is in flight
  and the promise is not rejected.
\<close>

definition quiet :: "run_state \<Rightarrow> bool" where
  "quiet st =
     ((\<forall>msg. SaveFailed msg \<notin> set (pending st)) \<and> (\<forall>e. outcome st \<noteq> Some (Inl e)))"

section \<open>Example inputs\<close>

text \<open>A runtime whose clock reads 2024-01-05T00:00:00Z and whose date parser knows no format.\<close>

definition rt_ex :: runtime where
  "rt_ex = \<lparr> now = 1704412800000, Date_parse = (\<lambda>s. InvalidDate) \<rparr>"

text \<open>A row with a zero unblended cost and a non-zero blended cost.\<close>

definition row_zero_unblended :: row where
  "row_zero_unblended =
     [(''LinkedAccountId'', ''123456789012''), (''ProductName'', ''Amazon EC2''),
      (''UnblendedCost'', ''0''), (''BlendedCost'', ''0.5'')]"

text \<open>
  Seven daily aggregates of one user, account, service and region, dated 2023-12-29 to
  2024-01-04, with the costs of the z-score example.
\<close>

definition costs7 :: "real list" where
  "costs7 = [100, 100, 100, 100, 100, 100, 400]"

definition week_row :: "int \<Rightarrow> real \<Rightarrow> Aggregate" where
  "week_row d c =
     \<lparr> userId = Some 1, date = d, accountId = Some ''123456789012'',
       service = Some ''Amazon EC2'', region = Some ''us-east-1'', aggregationType = Daily,
       totalCost = c, totalUsageQuantity = Some 24, lineItemCount = Some 1 \<rparr>"

definition db_week :: db where
  "db_week =
     \<lparr> lineItems = [],
       aggregates =
         [week_row 1703808000000 100, week_row 1703894400000 100, week_row 1703980800000 100,
          week_row 1704067200000 100, week_row 1704153600000 100, week_row 1704240000000 100,
          week_row 1704326400000 400],
       jobs = Map.empty \<rparr>"

definition detect_defaults :: detect_options where
  "detect_defaults =
     \<lparr> d_accountId = None, d_service = None, d_lookbackDays = None, d_threshold = None,
       d_userId = Some 1 \<rparr>"

definition detect_two :: detect_options where
  "detect_two = detect_defaults\<lparr> d_threshold := Some 2 \<rparr>"

definition week_key :: string where
  "week_key = ''123456789012_Amazon EC2_us-east-1''"

text \<open>The anomaly the detector builds for the 400 point of a group with the costs above.\<close>

definition spike_of_seven :: "objectId option \<Rightarrow> string \<Rightarrow> int \<Rightarrow> Anomaly" where
  "spike_of_seven uid k d =
     \<lparr> atype = Spike, severity = Medium, an_userId = uid,
       an_accountId = not_all (nth_opt (split_on (CHR ''_'') k) 0),
       an_service = not_all (nth_opt (split_on (CHR ''_'') k) 1),
       an_region = not_all (nth_opt (split_on (CHR ''_'') k) 2),
       an_date = d, an_cost = 400, expectedCost = 1000 / 7, variance = 1800 / 7,
       variancePercent = Some 180, zScore = sqrt 6 \<rparr>"

text \<open>A pending job of user 1, a store that holds nothing else, and a file of one row.\<close>

definition job_ex :: IngestionJob where
  "job_ex =
     \<lparr> job_userId = Some 1, status = Pending, rowsProcessed = 0, rowsTotal = 0,
       rowsSkipped = 0, job_errors = [] \<rparr>"

definition db_start :: db where
  "db_start = \<lparr> lineItems = [], aggregates = [], jobs = [7 \<mapsto> job_ex] \<rparr>"

definition row_one :: row where
  "row_one =
     [(''LinkedAccountId'', ''123456789012''), (''ProductName'', ''Amazon EC2''),
      (''UsageType'', ''USE1-BoxUsage:t3.micro''), (''AvailabilityZone'', ''us-east-1a''),
      (''UsageQuantity'', ''24''), (''UnblendedCost'', ''2.5'')]"

text \<open>
  The events of that file read to its end: the record, the end of the stream, and the
  operations of the end listener completing one after the other (the bulk insert, the
  save of the job, the aggregation). No other order is possible for a file shorter than
  a chunk, where at most one operation is in flight.
\<close>

definition file_one_row :: "event list" where
  "file_one_row = [Data row_one, End, Settle 0, Settle 0, Settle 0]"

text \<open>The line item stored for that row when job 7 of user 1 is processed.\<close>

definition item_one :: LineItem where
  "item_one =
     \<lparr> li_userId = Some 1, li_ingestionJobId = Some 7, li_ingestionDate = 1704412800000,
       li_usageStartDate = None, li_usageEndDate = None, li_accountId = ''123456789012'',
       li_service = ''Amazon EC2'', li_region = Some ''us-east-1'', li_cost = 5 / 2,
       li_usageQuantity = Some 24, li_usageQuantityNormalized = Some 24,
       li_usageTypeNormalized = Some ''USE1-BoxUsage:t3.micro'', li_resourceId = None,
       li_tags = [] \<rparr>"

definition default_options :: run_options where
  "default_options = \<lparr> opt_chunkSize = None, opt_userId = None \<rparr>"

definition run_once :: "db \<Rightarrow> (run_error + run_result) option \<times> db" where
  "run_once s = processCSVFile BillingLineItem_insertMany rt_ex file_one_row 7 default_options s"

text \<open>The job record after a run that processed one row and skipped none.\<close>

definition done_job :: "IngestionJob \<Rightarrow> IngestionJob" where
  "done_job job = job\<lparr> status := Completed, rowsProcessed := 1, rowsTotal := 1,
                                          rowsSkipped := 0, job_errors := [] \<rparr>"

text \<open>Stored line items for the examples of the aggregation engine and of the fallback.\<close>

definition item_ex :: "objectId \<Rightarrow> int \<Rightarrow> string \<Rightarrow> string \<Rightarrow> real \<Rightarrow> LineItem" where
  "item_ex u t a sv c =
     \<lparr> li_userId = Some u, li_ingestionJobId = Some 7, li_ingestionDate = 1704412800000,
       li_usageStartDate = Some t, li_usageEndDate = None, li_accountId = a, li_service = sv,
       li_region = Some ''us-east-1'', li_cost = c, li_usageQuantity = Some 24,
       li_usageQuantityNormalized = Some 24, li_usageTypeNormalized = None,
       li_resourceId = None, li_tags = [] \<rparr>"

definition db_items :: db where
  "db_items =
     \<lparr> lineItems =
         [item_ex 1 1704326400000 ''123456789012'' ''Amazon EC2'' 2,
          item_ex 1 1704330000000 ''123456789012'' ''Amazon EC2'' 3,
          item_ex 1 1704330000000 ''123456789012'' ''Amazon S3'' 4,
          item_ex 2 1704326400000 ''999999999999'' ''Amazon EC2'' 50],
       aggregates = [], jobs = [7 \<mapsto> job_ex] \<rparr>"

text \<open>A second row, and the line item stored for it when job 7 of user 1 is processed.\<close>

definition row_two :: row where
  "row_two =
     [(''LinkedAccountId'', ''123456789012''), (''ProductName'', ''Amazon S3''),
      (''UsageType'', ''USE1-TimedStorage-ByteHrs''), (''UsageQuantity'', ''10''),
      (''UnblendedCost'', ''4'')]"

definition item_two :: LineItem where
  "item_two =
     \<lparr> li_userId = Some 1, li_ingestionJobId = Some 7, li_ingestionDate = 1704412800000,
       li_usageStartDate = None, li_usageEndDate = None, li_accountId = ''123456789012'',
       li_service = ''Amazon S3'', li_region = Some ''unknown'', li_cost = 4,
       li_usageQuantity = Some 10, li_usageQuantityNormalized = Some 10,
       li_usageTypeNormalized = Some ''USE1-TimedStorage-ByteHrs'', li_resourceId = None,
       li_tags = [] \<rparr>"

text \<open>Options with a chunk of one row and of two rows.\<close>

definition chunk_one :: run_options where
  "chunk_one = \<lparr> opt_chunkSize = Some 1, opt_userId = None \<rparr>"

definition chunk_two :: run_options where
  "chunk_two = \<lparr> opt_chunkSize = Some 2, opt_userId = None \<rparr>"

text \<open>A store whose writes fail with an error other than a duplicate key.\<close>

definition failing_store :: insert_op where
  "failing_store docs c = (Some (WriteFailure ''connection lost''), c)"

text \<open>The candidate the data listener buffers for a row of job 7 of user 1.\<close>

definition stamped :: "row \<Rightarrow> jsobject" where
  "stamped r = (normalizeLineItem rt_ex r 7)(''userId'' \<mapsto> ObjId 1)"

text \<open>The job of the example while its file is read.\<close>

definition job_running :: IngestionJob where
  "job_running = job_ex\<lparr> status := Processing \<rparr>"

definition db_running :: db where
  "db_running = db_start\<lparr> jobs := (jobs db_start)(7 \<mapsto> job_running) \<rparr>"

text \<open>
  Two daily rows of user 1 in January 2024 whose account and service differ but whose
  texts joined by an underscore agree.
\<close>

definition day_row :: "int \<Rightarrow> string \<Rightarrow> string \<Rightarrow> real \<Rightarrow> Aggregate" where
  "day_row d a sv c =
     \<lparr> userId = Some 1, date = d, accountId = Some a, service = Some sv,
       region = Some ''us-east-1'', aggregationType = Daily, totalCost = c,
       totalUsageQuantity = Some 24, lineItemCount = Some 1 \<rparr>"

definition db_collide :: db where
  "db_collide =
     \<lparr> lineItems = [],
       aggregates = [day_row 1704326400000 ''123_prod'' ''EC2'' 1,
                     day_row 1704412800000 ''123'' ''prod_EC2'' 2],
       jobs = Map.empty \<rparr>"

text \<open>The rows of a list that match a month start, an account, a service and a region.\<close>

definition rows_of :: "int \<Rightarrow> string \<Rightarrow> string \<Rightarrow> string \<Rightarrow> Aggregate list \<Rightarrow> Aggregate list" where
  "rows_of m a sv rg rows =
     filter (\<lambda>d. startOfMonth (date d) = m \<and> accountId d = Some a \<and> service d = Some sv \<and>
                  region d = Some rg) rows"

text \<open>
  Monthly EC2 aggregates of user 1 and one account: 600 for January 2024, inside the
  window of 30 days before the clock of the example runtime, and 6000 for June 2023,
  outside of it.
\<close>

definition month_row :: "int \<Rightarrow> real \<Rightarrow> Aggregate" where
  "month_row d c =
     \<lparr> userId = Some 1, date = d, accountId = Some ''123456789012'',
       service = Some ''Amazon EC2'', region = Some ''us-east-1'', aggregationType = Monthly,
       totalCost = c, totalUsageQuantity = Some 720, lineItemCount = Some 30 \<rparr>"

definition db_ri :: db where
  "db_ri =
     \<lparr> lineItems = [],
       aggregates = [month_row 1685577600000 6000, month_row 1704067200000 600],
       jobs = Map.empty \<rparr>"

definition ri_options :: rec_options where
  "ri_options = \<lparr> r_accountId = None, r_lookbackDays = None, r_userId = Some 1 \<rparr>"

definition ri_query :: rec_query where
  "ri_query =
     \<lparr> q_userId = 1, q_usageStartDate = (1701820800000, 1704412800000), q_accountId = None \<rparr>"

section \<open>Properties of grouping by composite keys\<close>

subsection \<open>Keys and entries of a grouping\<close>

lemma group_update_keys: "fst ` set (group_update k ini f m) = insert k (fst ` set m)"
proof (induction m)
  case Nil
  show ?case by simp
next
  case (Cons e m)
  obtain k' v where e: "e = (k', v)" by (cases e)
  show ?case
  proof (cases "k' = k")
    case True
    then show ?thesis by (simp add: e)
  next
    case False
    then show ?thesis using Cons.IH by (simp add: e insert_commute)
  qed
qed

lemma group_update_distinct:
  "distinct (map fst m) \<Longrightarrow> distinct (map fst (group_update k ini f m))"
proof (induction m)
  case Nil
  then show ?case by simp
next
  case (Cons e m)
  have "fst e \<notin> fst ` set (group_update k ini f m)" if "fst e \<noteq> k"
    using that Cons.prems by (auto simp: group_update_keys)
  then show ?case using Cons by (cases e) auto
qed

lemma group_update_entries:
  assumes "\<And>v. Q k v \<Longrightarrow> Q k (f v)" and "Q k ini" and "\<forall>e \<in> set m. Q (fst e) (snd e)"
  shows "\<forall>e \<in> set (group_update k ini f m). Q (fst e) (snd e)"
  using assms(3)
proof (induction m)
  case Nil
  show ?case using assms(1,2) by simp
next
  case (Cons e m)
  obtain k' v where e: "e = (k', v)" by (cases e)
  show ?case
  proof (cases "k' = k")
    case True
    then show ?thesis using Cons.prems assms(1) by (simp add: e)
  next
    case False
    then show ?thesis using Cons by (simp add: e)
  qed
qed

lemma group_update_sum_at:
  fixes w :: "'v \<Rightarrow> 'a :: comm_monoid_add"
  assumes "\<And>v. w (f v) = w v + c" and "w ini = 0"
  shows "sum_list (map (\<lambda>e. if fst e = k then w (snd e) else 0) (group_update k' ini f m)) =
         sum_list (map (\<lambda>e. if fst e = k then w (snd e) else 0) m) + (if k' = k then c else 0)"
  by (induction m) (use assms in \<open>auto simp: add_ac\<close>)

lemma fold_group_keys:
  "fst ` set (fold (\<lambda>i. group_update (key i) (ini i) (add i)) items m) =
   fst ` set m \<union> key ` set items"
  by (induction items arbitrary: m) (auto simp: group_update_keys)

lemma fold_group_distinct:
  "distinct (map fst m) \<Longrightarrow>
   distinct (map fst (fold (\<lambda>i. group_update (key i) (ini i) (add i)) items m))"
  by (induction items arbitrary: m) (simp_all add: group_update_distinct)

lemma fold_group_entries:
  assumes "\<And>i k v. Q k v \<Longrightarrow> Q k (add i v)"
    and "\<And>i. i \<in> set items \<Longrightarrow> Q (key i) (ini i)"
    and "\<forall>e \<in> set m. Q (fst e) (snd e)"
  shows "\<forall>e \<in> set (fold (\<lambda>i. group_update (key i) (ini i) (add i)) items m). Q (fst e) (snd e)"
  using assms(2,3)
proof (induction items arbitrary: m)
  case Nil
  then show ?case by simp
next
  case (Cons i items)
  have "\<forall>e \<in> set (group_update (key i) (ini i) (add i) m). Q (fst e) (snd e)"
    by (rule group_update_entries) (use assms(1) Cons.prems in auto)
  moreover have "\<And>j. j \<in> set items \<Longrightarrow> Q (key j) (ini j)"
    using Cons.prems(1) by simp
  ultimately show ?case using Cons.IH by simp
qed

lemma fold_group_sum_at:
  fixes w :: "'v \<Rightarrow> 'a :: comm_monoid_add"
  assumes "\<And>i v. w (add i v) = w v + c i" and "\<And>i. w (ini i) = 0"
  shows "sum_list (map (\<lambda>e. if fst e = k then w (snd e) else 0)
                    (fold (\<lambda>i. group_update (key i) (ini i) (add i)) items m)) =
         sum_list (map (\<lambda>e. if fst e = k then w (snd e) else 0) m) +
         sum_list (map c (filter (\<lambda>i. key i = k) items))"
proof (induction items arbitrary: m)
  case Nil
  then show ?case by simp
next
  case (Cons i items)
  show ?case
    using Cons.IH [of "group_update (key i) (ini i) (add i) m"]
      group_update_sum_at [of w "add i" "c i" "ini i" k "key i" m, OF assms(1) assms(2)]
    by (simp add: add_ac)
qed

lemma distinct_entry_sum:
  fixes w :: "'v \<Rightarrow> 'a :: comm_monoid_add"
  assumes "distinct (map fst m)" and "(k, v) \<in> set m"
  shows "sum_list (map (\<lambda>e. if fst e = k then w (snd e) else 0) m) = w v"
  using assms
proof (induction m)
  case Nil
  then show ?case by simp
next
  case (Cons e m)
  show ?case
  proof (cases "e = (k, v)")
    case True
    then have "k \<notin> fst ` set m" using Cons.prems(1) by auto
    then have "sum_list (map (\<lambda>e. if fst e = k then w (snd e) else 0) m) = 0"
      by (induction m) auto
    then show ?thesis using True by simp
  next
    case False
    then have mem: "(k, v) \<in> set m" using Cons.prems(2) by simp
    then have "fst e \<noteq> k" using Cons.prems(1) by (cases e) (auto simp: image_iff)
    then show ?thesis using Cons.IH mem Cons.prems(1) by simp
  qed
qed

subsection \<open>Composite keys\<close>

lemma join_eq:
  assumes "no_underscore a" and "no_underscore b" and "a @ CHR ''_'' # r = b @ CHR ''_'' # r'"
  shows "a = b \<and> r = r'"
  using assms
proof (induction a arbitrary: b)
  case Nil
  then show ?case by (cases b) (auto simp: no_underscore_def)
next
  case (Cons x a)
  then show ?case by (cases b) (auto simp: no_underscore_def)
qed

lemma digit_char_digit: "digit_char n \<in> set ''0123456789''"
  unfolding digit_char_def by (rule nth_mem) simp

lemma pad_digits: "set (pad w n) \<subseteq> set ''0123456789''"
  by (induction w arbitrary: n) (use digit_char_digit in auto)

lemma no_underscore_simps:
  "no_underscore []"
  "no_underscore (c # x) = (c \<noteq> CHR ''_'' \<and> no_underscore x)"
  "no_underscore (x @ y) = (no_underscore x \<and> no_underscore y)"
  by (auto simp: no_underscore_def)

lemma pad_no_underscore: "no_underscore (pad w n)"
  using pad_digits [of w n] by (auto simp: no_underscore_def)

lemma toISOString_no_underscore: "no_underscore (toISOString t)"
proof -
  obtain y m d where c: "civil_from_days (t div ms_per_day) = (y, m, d)"
    by (cases "civil_from_days (t div ms_per_day)") auto
  have "no_underscore (year_string y)"
    by (simp add: year_string_def no_underscore_simps pad_no_underscore)
  then show ?thesis
    by (simp add: toISOString_def c no_underscore_simps pad_no_underscore)
qed

lemma str_or_all_no_underscore: "no_underscore x \<Longrightarrow> no_underscore (str_or x ''all'')"
  by (simp add: str_or_def no_underscore_simps)

lemma fallback_key_eq:
  assumes "no_underscore (li_accountId i)" "no_underscore (li_service i)"
    and "no_underscore (li_accountId j)" "no_underscore (li_service j)"
  shows "(fallback_key i = fallback_key j) = (group_of i = group_of j)"
proof
  assume eq: "fallback_key i = fallback_key j"
  have 1: "toISOString (item_day i) = toISOString (item_day j) \<and>
      str_or (li_accountId i) ''all'' @ ''_'' @ str_or (li_service i) ''all'' @ ''_'' @ opt_str_or (li_region i) ''all'' =
      str_or (li_accountId j) ''all'' @ ''_'' @ str_or (li_service j) ''all'' @ ''_'' @ opt_str_or (li_region j) ''all''"
    using eq by (intro join_eq toISOString_no_underscore) (simp add: fallback_key_def)
  then have 2: "str_or (li_accountId i) ''all'' = str_or (li_accountId j) ''all'' \<and>
      str_or (li_service i) ''all'' @ ''_'' @ opt_str_or (li_region i) ''all'' =
      str_or (li_service j) ''all'' @ ''_'' @ opt_str_or (li_region j) ''all''"
    using assms(1,3) by (intro join_eq str_or_all_no_underscore) simp_all
  then have "str_or (li_service i) ''all'' = str_or (li_service j) ''all'' \<and>
      opt_str_or (li_region i) ''all'' = opt_str_or (li_region j) ''all''"
    using assms(2,4) by (intro join_eq str_or_all_no_underscore) simp_all
  with 1 2 show "group_of i = group_of j" by (simp add: group_of_def)
next
  assume "group_of i = group_of j"
  then show "fallback_key i = fallback_key j" by (simp add: group_of_def fallback_key_def)
qed


section \<open>Properties of the aggregation engine\<close>

subsection \<open>Grouping keeps sums\<close>

lemma group_update_sum:
  fixes w :: "'v \<Rightarrow> 'a :: comm_monoid_add"
  assumes "\<And>v. P v \<Longrightarrow> P (f v) \<and> w (f v) = w v + c"
    and "P ini \<and> w ini = 0"
    and "\<forall>v \<in> snd ` set m. P v"
  shows "(\<forall>v \<in> snd ` set (group_update k ini f m). P v) \<and>
         sum_list (map (\<lambda>e. w (snd e)) (group_update k ini f m)) =
           sum_list (map (\<lambda>e. w (snd e)) m) + c"
  using assms(3)
proof (induction m)
  case Nil
  then show ?case using assms(1) [of ini] assms(2) by simp
next
  case (Cons e m)
  then show ?case using assms(1) [of "snd e"] by (cases e) (auto simp: add_ac)
qed

lemma fold_group_sum:
  fixes w :: "'v \<Rightarrow> 'a :: comm_monoid_add"
  assumes step: "\<And>i v. P v \<Longrightarrow> P (add i v) \<and> w (add i v) = w v + c i"
    and init: "\<And>i. i \<in> set items \<Longrightarrow> P (ini i) \<and> w (ini i) = 0"
    and "\<forall>v \<in> snd ` set m. P v"
  shows "(\<forall>v \<in> snd ` set (fold (\<lambda>i. group_update (key i) (ini i) (add i)) items m). P v) \<and>
         sum_list (map (\<lambda>e. w (snd e)) (fold (\<lambda>i. group_update (key i) (ini i) (add i)) items m)) =
           sum_list (map (\<lambda>e. w (snd e)) m) + sum_list (map c items)"
  using init assms(3)
proof (induction items arbitrary: m)
  case Nil
  then show ?case by simp
next
  case (Cons i items)
  have g: "(\<forall>v \<in> snd ` set (group_update (key i) (ini i) (add i) m). P v) \<and>
      sum_list (map (\<lambda>e. w (snd e)) (group_update (key i) (ini i) (add i) m)) =
        sum_list (map (\<lambda>e. w (snd e)) m) + c i"
    by (rule group_update_sum [where P = P]) (use step Cons.prems in auto)
  have "\<And>j. j \<in> set items \<Longrightarrow> P (ini j) \<and> w (ini j) = 0"
    using Cons.prems(1) by simp
  from Cons.IH [OF this, of "group_update (key i) (ini i) (add i) m"] g
  show ?case by (simp add: add_ac)
qed

subsection \<open>The store with the schema's indexes\<close>

lemma insert_unordered_no_conflict:
  "insert_unordered (\<lambda>d e. False) docs c = (False, c @ docs)"
  by (induction docs arbitrary: c) (simp_all add: list_ex_iff)

lemma save_aggregates_appends: "save_aggregates aggs c = c @ aggs"
proof -
  have "unique_conflict Aggregate_unique = (\<lambda>d e. False)"
    by (simp add: unique_conflict_def Aggregate_unique_def fun_eq_iff)
  then show ?thesis
    by (simp add: save_aggregates_def insertMany_def insert_unordered_no_conflict)
qed

subsection \<open>The daily rebuild\<close>

lemma daily_step:
  "fresh_daily u v \<Longrightarrow> fresh_daily u (add_to_daily i v)"
  "fresh_daily u (new_daily u i)"
  by (auto simp: fresh_daily_def is_daily_of_def add_to_daily_def new_daily_def)

lemma daily_fold:
  fixes w :: "Aggregate \<Rightarrow> 'a :: comm_monoid_add"
  assumes "\<And>i v. fresh_daily u v \<Longrightarrow> w (add_to_daily i v) = w v + c i"
    and "\<And>i. w (new_daily u i) = 0"
  shows "(\<forall>v \<in> snd ` set (dailyAggregates u items). fresh_daily u v) \<and>
         sum_list (map (\<lambda>e. w (snd e)) (dailyAggregates u items)) = sum_list (map c items)"
  using fold_group_sum [where P = "fresh_daily u" and w = w and c = c and add = add_to_daily
      and ini = "new_daily u" and key = daily_key and m = "[]" and items = items]
    assms daily_step
  by (simp add: dailyAggregates_def)

lemma daily_sums:
  "sum_list (map (\<lambda>e. totalCost (snd e)) (dailyAggregates u items)) = sum_list (map li_cost items)"
  "sum_list (map (\<lambda>e. opt_num_or0 (totalUsageQuantity (snd e))) (dailyAggregates u items)) =
     sum_list (map (\<lambda>i. opt_num_or0 (li_usageQuantityNormalized i)) items)"
  "sum_list (map (\<lambda>e. opt_count_or0 (lineItemCount (snd e))) (dailyAggregates u items)) =
     length items"
proof -
  have cost: "totalCost (add_to_daily i v) = totalCost v + li_cost i" for i v
    by (simp add: add_to_daily_def num_or0_def)
  have cost0: "totalCost (new_daily u i) = 0" for i
    by (simp add: new_daily_def)
  from daily_fold [where w = totalCost and c = li_cost, OF cost cost0]
  show "sum_list (map (\<lambda>e. totalCost (snd e)) (dailyAggregates u items)) = sum_list (map li_cost items)"
    by simp
  have qty: "opt_num_or0 (totalUsageQuantity (add_to_daily i v)) =
      opt_num_or0 (totalUsageQuantity v) + opt_num_or0 (li_usageQuantityNormalized i)"
    if "fresh_daily u v" for i v
    using that by (auto simp: add_to_daily_def opt_num_or0_def num_or0_def fresh_daily_def)
  have qty0: "opt_num_or0 (totalUsageQuantity (new_daily u i)) = 0" for i
    by (simp add: new_daily_def opt_num_or0_def num_or0_def)
  from daily_fold [where w = "\<lambda>a. opt_num_or0 (totalUsageQuantity a)"
      and c = "\<lambda>i. opt_num_or0 (li_usageQuantityNormalized i)", OF qty qty0]
  show "sum_list (map (\<lambda>e. opt_num_or0 (totalUsageQuantity (snd e))) (dailyAggregates u items)) =
      sum_list (map (\<lambda>i. opt_num_or0 (li_usageQuantityNormalized i)) items)"
    by simp
  have cnt: "opt_count_or0 (lineItemCount (add_to_daily i v)) = opt_count_or0 (lineItemCount v) + 1"
    if "fresh_daily u v" for i v
    using that by (auto simp: add_to_daily_def opt_count_or0_def fresh_daily_def)
  have cnt0: "opt_count_or0 (lineItemCount (new_daily u i)) = 0" for i
    by (simp add: new_daily_def opt_count_or0_def)
  from daily_fold [where w = "\<lambda>a. opt_count_or0 (lineItemCount a)" and c = "\<lambda>i. 1", OF cnt cnt0]
  show "sum_list (map (\<lambda>e. opt_count_or0 (lineItemCount (snd e))) (dailyAggregates u items)) =
      length items"
    by (simp add: sum_list_triv)
qed

lemma daily_rows_fresh: "\<forall>v \<in> snd ` set (dailyAggregates u items). fresh_daily u v"
  using daily_fold [where w = "\<lambda>a. 0 :: nat" and c = "\<lambda>i. 0" and u = u and items = items]
  by simp

subsection \<open>The monthly rebuild leaves daily rows alone\<close>

lemma monthly_fold:
  fixes w :: "Aggregate \<Rightarrow> 'a :: comm_monoid_add"
  assumes "\<And>d v. P v \<Longrightarrow> P (add_to_monthly d v) \<and> w (add_to_monthly d v) = w v + c d"
    and "\<And>d. d \<in> set ds \<Longrightarrow> P (new_monthly d) \<and> w (new_monthly d) = 0"
  shows "(\<forall>v \<in> snd ` set (monthlyMap ds). P v) \<and>
         sum_list (map (\<lambda>e. w (snd e)) (monthlyMap ds)) = sum_list (map c ds)"
  using fold_group_sum [where P = P and w = w and c = c and add = add_to_monthly
      and ini = new_monthly and key = monthly_key and m = "[]" and items = ds] assms
  by (simp add: monthlyMap_def)

lemma monthly_rows:
  "\<forall>v \<in> snd ` set (monthlyMap ds). aggregationType v = Monthly"
  using monthly_fold [where P = "\<lambda>v. aggregationType v = Monthly" and w = "\<lambda>a. 0 :: nat"
      and c = "\<lambda>i. 0" and ds = ds]
  by (simp add: add_to_monthly_def new_monthly_def)

lemma monthly_rows_owner:
  assumes "\<forall>d \<in> set ds. userId d = Some u"
  shows "\<forall>v \<in> snd ` set (monthlyMap ds). is_monthly_of u v"
  using monthly_fold [where P = "is_monthly_of u" and w = "\<lambda>a. 0 :: nat"
      and c = "\<lambda>i. 0" and ds = ds] assms
  by (simp add: add_to_monthly_def new_monthly_def is_monthly_of_def)

lemma monthly_total:
  "sum_list (map (\<lambda>e. totalCost (snd e)) (monthlyMap ds)) = sum_list (map totalCost ds)"
  using monthly_fold [where P = "\<lambda>v. True" and w = totalCost and c = totalCost and ds = ds]
  by (simp add: add_to_monthly_def new_monthly_def num_or0_def)

lemma filter_none: "(\<forall>x \<in> set xs. \<not> P x) \<Longrightarrow> filter P xs = []"
  by (induction xs) auto

lemma filter_all: "(\<forall>x \<in> set xs. P x) \<Longrightarrow> filter P xs = xs"
  by (induction xs) auto

lemma monthly_keeps_daily:
  "filter (is_daily_of u) (aggregates (computeMonthlyAggregates s uo)) =
   filter (is_daily_of u) (aggregates s)"
proof (cases uo)
  case None
  then show ?thesis by (simp add: computeMonthlyAggregates_def)
next
  case (Some v)
  let ?ms = "map snd (monthlyMap (filter (is_daily_of v) (aggregates s)))"
  have no: "filter (is_daily_of u) ?ms = []"
    using monthly_rows [of "filter (is_daily_of v) (aggregates s)"]
    by (intro filter_none) (auto simp: is_daily_of_def)
  have keep: "filter (\<lambda>x. \<not> is_monthly_of v x \<and> is_daily_of u x) xs =
      filter (is_daily_of u) xs" for xs
    by (rule filter_cong) (auto simp: is_daily_of_def is_monthly_of_def)
  show ?thesis
    by (simp add: Some computeMonthlyAggregates_def Let_def save_aggregates_appends no keep)
qed

lemma rebuilt_monthly_rows:
  assumes "filter (is_daily_of u) (aggregates s) \<noteq> []"
  shows "filter (is_monthly_of u) (aggregates (computeMonthlyAggregates s (Some u))) =
         map snd (monthlyMap (filter (is_daily_of u) (aggregates s)))"
proof -
  let ?ms = "map snd (monthlyMap (filter (is_daily_of u) (aggregates s)))"
  have own: "\<forall>a \<in> set ?ms. is_monthly_of u a"
    using monthly_rows_owner [of "filter (is_daily_of u) (aggregates s)" u]
    by (auto simp: is_daily_of_def)
  have kept: "filter (is_monthly_of u) (filter (\<lambda>a. \<not> is_monthly_of u a) (aggregates s)) = []"
    by (intro filter_none) auto
  have "filter (is_monthly_of u) (aggregates (computeMonthlyAggregates s (Some u))) =
      filter (is_monthly_of u)
        (if ?ms \<noteq> [] then save_aggregates ?ms (filter (\<lambda>a. \<not> is_monthly_of u a) (aggregates s))
         else filter (\<lambda>a. \<not> is_monthly_of u a) (aggregates s))"
    using assms by (simp add: computeMonthlyAggregates_def Let_def)
  also have "\<dots> = ?ms"
    using own by (auto simp: save_aggregates_appends kept filter_all)
  finally show ?thesis .
qed

lemma aggregates_lineItems: "lineItems (computeMonthlyAggregates s uo) = lineItems s"
  by (simp add: computeMonthlyAggregates_def Let_def split: option.splits)

lemma aggregateData_lineItems: "lineItems (aggregateData s jobId) = lineItems s"
  by (simp add: aggregateData_def Let_def aggregates_lineItems split: option.splits)

lemma rebuilt_daily_rows:
  assumes "jobs s jobId = Some job" and "job_userId job = Some u"
    and "filter (\<lambda>i. li_userId i = Some u) (lineItems s) \<noteq> []"
  shows "filter (is_daily_of u) (aggregates (aggregateData s jobId)) =
         map snd (dailyAggregates u (filter (\<lambda>i. li_userId i = Some u) (lineItems s)))"
proof -
  let ?items = "filter (\<lambda>i. li_userId i = Some u) (lineItems s)"
  let ?aggs = "map snd (dailyAggregates u ?items)"
  have fresh: "\<forall>a \<in> set ?aggs. is_daily_of u a"
    using daily_rows_fresh [of u ?items] by (auto simp: fresh_daily_def)
  have kept: "filter (is_daily_of u) (filter (\<lambda>a. \<not> is_daily_of u a) (aggregates s)) = []"
    by (intro filter_none) auto
  have "filter (is_daily_of u) (aggregates (aggregateData s jobId)) =
      filter (is_daily_of u)
        (if ?aggs \<noteq> [] then save_aggregates ?aggs (filter (\<lambda>a. \<not> is_daily_of u a) (aggregates s))
         else filter (\<lambda>a. \<not> is_daily_of u a) (aggregates s))"
    using assms by (simp add: aggregateData_def Let_def monthly_keeps_daily)
  also have "\<dots> = ?aggs"
    using fresh by (auto simp: save_aggregates_appends kept filter_all)
  finally show ?thesis .
qed

lemma dailyAggregates_nonempty:
  assumes "items \<noteq> []"
  shows "dailyAggregates u items \<noteq> []"
proof
  assume "dailyAggregates u items = []"
  with daily_sums(3) [of u items] have "length items = 0" by simp
  with assms show False by simp
qed

lemma aggregateData_unfold:
  assumes "jobs s jobId = Some job" and "job_userId job = Some u"
    and "filter (\<lambda>i. li_userId i = Some u) (lineItems s) \<noteq> []"
  shows "aggregateData s jobId =
     computeMonthlyAggregates
       (s\<lparr> aggregates := filter (\<lambda>a. \<not> is_daily_of u a) (aggregates s) @
            map snd (dailyAggregates u (filter (\<lambda>i. li_userId i = Some u) (lineItems s))) \<rparr>)
       (Some u)"
  using assms dailyAggregates_nonempty [OF assms(3), of u]
  by (simp add: aggregateData_def Let_def save_aggregates_appends)

lemma rebuilt_totals:
  assumes "jobs s jobId = Some job" and "job_userId job = Some u"
    and "filter (\<lambda>i. li_userId i = Some u) (lineItems s) \<noteq> []"
  shows "sum_list (map totalCost (filter (is_daily_of u) (aggregates (aggregateData s jobId)))) =
           sum_list (map li_cost (filter (\<lambda>i. li_userId i = Some u) (lineItems s)))"
    and "sum_list (map totalCost (filter (is_monthly_of u) (aggregates (aggregateData s jobId)))) =
           sum_list (map li_cost (filter (\<lambda>i. li_userId i = Some u) (lineItems s)))"
proof -
  let ?items = "filter (\<lambda>i. li_userId i = Some u) (lineItems s)"
  let ?aggs = "map snd (dailyAggregates u ?items)"
  let ?s1 = "s\<lparr> aggregates := filter (\<lambda>a. \<not> is_daily_of u a) (aggregates s) @ ?aggs \<rparr>"
  have rows: "filter (is_daily_of u) (aggregates (aggregateData s jobId)) = ?aggs"
    by (rule rebuilt_daily_rows [OF assms])
  show d: "sum_list (map totalCost (filter (is_daily_of u) (aggregates (aggregateData s jobId)))) =
      sum_list (map li_cost ?items)"
    unfolding rows using daily_sums(1) [of u ?items] by (simp add: comp_def)
  have "filter (is_daily_of u) (aggregates ?s1) = ?aggs"
    using rows monthly_keeps_daily [of u ?s1 "Some u"] aggregateData_unfold [OF assms] by simp
  moreover have "?aggs \<noteq> []"
    using dailyAggregates_nonempty [OF assms(3), of u] by simp
  ultimately have "filter (is_monthly_of u) (aggregates (aggregateData s jobId)) =
      map snd (monthlyMap ?aggs)"
    using rebuilt_monthly_rows [of u ?s1] aggregateData_unfold [OF assms] by simp
  then show "sum_list (map totalCost (filter (is_monthly_of u) (aggregates (aggregateData s jobId)))) =
      sum_list (map li_cost ?items)"
    using monthly_total [of ?aggs] daily_sums(1) [of u ?items] by (simp add: comp_def)
qed

lemma computeMonthlyAggregates_jobs: "jobs (computeMonthlyAggregates s uo) = jobs s"
  by (simp add: computeMonthlyAggregates_def Let_def split: option.splits)

lemma aggregateData_jobs: "jobs (aggregateData s jobId) = jobs s"
  by (simp add: aggregateData_def Let_def computeMonthlyAggregates_jobs split: option.splits)

text \<open>
  C2. After \<open>aggregateData\<close> has run for a job of user \<open>u\<close>, the user's daily aggregate
  rows add up to the user's line items: \<open>totalCost\<close> to the sum of \<open>cost\<close>,
  \<open>totalUsageQuantity\<close> to the sum of the normalized usage quantities (an absent quantity
  counting as 0), and \<open>lineItemCount\<close> to the number of line items. The function returns
  without rebuilding when the user has no line item; the equalities then hold when no
  daily row of the user is stored.
\<close>

theorem daily_totals_match_line_items:
  assumes "jobs s jobId = Some job" and "job_userId job = Some u"
    and "filter (\<lambda>i. li_userId i = Some u) (lineItems s) \<noteq> [] \<or>
         filter (is_daily_of u) (aggregates s) = []"
  shows "sum_list (map totalCost (filter (is_daily_of u) (aggregates (aggregateData s jobId)))) =
           sum_list (map li_cost (filter (\<lambda>i. li_userId i = Some u) (lineItems (aggregateData s jobId)))) \<and>
         sum_list (map (\<lambda>a. opt_num_or0 (totalUsageQuantity a))
                     (filter (is_daily_of u) (aggregates (aggregateData s jobId)))) =
           sum_list (map (\<lambda>i. opt_num_or0 (li_usageQuantityNormalized i))
                     (filter (\<lambda>i. li_userId i = Some u) (lineItems (aggregateData s jobId)))) \<and>
         sum_list (map (\<lambda>a. opt_count_or0 (lineItemCount a))
                     (filter (is_daily_of u) (aggregates (aggregateData s jobId)))) =
           length (filter (\<lambda>i. li_userId i = Some u) (lineItems (aggregateData s jobId)))"
proof (cases "filter (\<lambda>i. li_userId i = Some u) (lineItems s) = []")
  case True
  with assms(3) have "filter (is_daily_of u) (aggregates s) = []" by simp
  moreover have "aggregateData s jobId = s"
    using assms(1,2) True by (simp add: aggregateData_def)
  ultimately show ?thesis using True by simp
next
  case False
  note rows = rebuilt_daily_rows [OF assms(1,2) False]
  show ?thesis
    unfolding rows aggregateData_lineItems
    using daily_sums [of u "filter (\<lambda>i. li_userId i = Some u) (lineItems s)"]
    by (simp add: comp_def)
qed

theorem daily_totals_match_line_items_witness:
  "jobs db_items 7 = Some job_ex \<and> job_userId job_ex = Some 1 \<and>
   filter (\<lambda>i. li_userId i = Some 1) (lineItems db_items) \<noteq> [] \<and>
   sum_list (map totalCost (filter (is_daily_of 1) (aggregates (aggregateData db_items 7)))) = 9 \<and>
   sum_list (map li_cost (filter (\<lambda>i. li_userId i = Some 1) (lineItems (aggregateData db_items 7)))) = 9 \<and>
   sum_list (map (\<lambda>a. opt_count_or0 (lineItemCount a))
               (filter (is_daily_of 1) (aggregates (aggregateData db_items 7)))) = 3"
proof -
  have job: "jobs db_items 7 = Some job_ex" by (simp add: db_items_def)
  have user: "job_userId job_ex = Some 1" by (simp add: job_ex_def)
  have items: "filter (\<lambda>i. li_userId i = Some 1) (lineItems db_items) \<noteq> []"
    by (simp add: db_items_def item_ex_def)
  have nine: "sum_list (map li_cost (filter (\<lambda>i. li_userId i = Some 1) (lineItems db_items))) = 9"
    and three: "length (filter (\<lambda>i. li_userId i = Some 1) (lineItems db_items)) = 3"
    by (simp_all add: db_items_def item_ex_def)
  from daily_totals_match_line_items [OF job user disjI1 [OF items]] job user items nine three
  show ?thesis by (simp add: aggregateData_lineItems)
qed

subsection \<open>Monthly rows of colliding keys\<close>

lemma collide_daily: "filter (is_daily_of 1) (aggregates db_collide) = aggregates db_collide"
  by code_simp

lemma collide_key_first:
  "monthly_key (day_row 1704326400000 ''123_prod'' ''EC2'' 1) =
   ''2024-01-01T00:00:00.000Z_123_prod_EC2_us-east-1''"
  by code_simp

lemma collide_key_second:
  "monthly_key (day_row 1704412800000 ''123'' ''prod_EC2'' 2) =
   ''2024-01-01T00:00:00.000Z_123_prod_EC2_us-east-1''"
  by code_simp

lemma collide_merged:
  "add_to_monthly (day_row 1704412800000 ''123'' ''prod_EC2'' 2)
     (add_to_monthly (day_row 1704326400000 ''123_prod'' ''EC2'' 1)
        (new_monthly (day_row 1704326400000 ''123_prod'' ''EC2'' 1))) =
   \<lparr> userId = Some 1, date = 1704067200000, accountId = Some ''123_prod'',
     service = Some ''EC2'', region = Some ''us-east-1'', aggregationType = Monthly,
     totalCost = 3, totalUsageQuantity = Some 48, lineItemCount = Some 2 \<rparr>"
  by code_simp

lemma collide_monthly:
  "map snd (monthlyMap (aggregates db_collide)) =
     [\<lparr> userId = Some 1, date = 1704067200000, accountId = Some ''123_prod'',
        service = Some ''EC2'', region = Some ''us-east-1'', aggregationType = Monthly,
        totalCost = 3, totalUsageQuantity = Some 48, lineItemCount = Some 2 \<rparr>]"
  using collide_merged
  by (simp add: monthlyMap_def db_collide_def collide_key_first collide_key_second)

lemma collide_rows:
  "map totalCost (rows_of 1704067200000 ''123_prod'' ''EC2'' ''us-east-1'' (aggregates db_collide)) = [1]"
  "map totalCost (rows_of 1704067200000 ''123'' ''prod_EC2'' ''us-east-1'' (aggregates db_collide)) = [2]"
  by code_simp+

text \<open>
  C3 (the code departs from the claim). The monthly groups are keyed by the month start,
  the account, the service and the region joined by underscores, so two tuples whose
  joined texts agree share one group. The two daily rows of the example belong to the
  tuples (123_prod, EC2, us-east-1) and (123, prod_EC2, us-east-1) of January 2024, with
  costs 1 and 2. The rebuild stores a single monthly row, for the first tuple, with
  \<open>totalCost\<close> 3 and \<open>lineItemCount\<close> 2, and no row for the second tuple.
\<close>

theorem monthly_rollup_merges_colliding_keys:
  "filter (is_monthly_of 1) (aggregates (computeMonthlyAggregates db_collide (Some 1))) =
     [\<lparr> userId = Some 1, date = 1704067200000, accountId = Some ''123_prod'',
        service = Some ''EC2'', region = Some ''us-east-1'', aggregationType = Monthly,
        totalCost = 3, totalUsageQuantity = Some 48, lineItemCount = Some 2 \<rparr>] \<and>
   map totalCost (rows_of 1704067200000 ''123_prod'' ''EC2'' ''us-east-1''
                    (filter (is_daily_of 1) (aggregates db_collide))) = [1] \<and>
   map totalCost (rows_of 1704067200000 ''123'' ''prod_EC2'' ''us-east-1''
                    (filter (is_daily_of 1) (aggregates db_collide))) = [2]"
proof -
  have ne: "filter (is_daily_of 1) (aggregates db_collide) \<noteq> []"
    unfolding collide_daily by (simp add: db_collide_def)
  have "filter (is_monthly_of 1) (aggregates (computeMonthlyAggregates db_collide (Some 1))) =
      map snd (monthlyMap (aggregates db_collide))"
    using rebuilt_monthly_rows [OF ne] unfolding collide_daily .
  then show ?thesis
    unfolding collide_daily collide_monthly using collide_rows by simp
qed

section \<open>Properties of the anomaly detector\<close>

subsection \<open>A run whose data points form one group\<close>

lemma push_all_same:
  assumes "\<forall>x \<in> set xs. key x = k" and "k \<notin> set Object_prototype_names"
  shows "push_all key val xs [(k, l)] = Inr [(k, l @ map val xs)]"
  using assms(1)
proof (induction xs arbitrary: l)
  case Nil
  then show ?case by simp
next
  case (Cons x xs)
  then show ?case using assms(2) by simp
qed

lemma push_all_single_group:
  assumes "xs \<noteq> []" and "\<forall>x \<in> set xs. key x = k" and "k \<notin> set Object_prototype_names"
  shows "push_all key val xs [] = Inr [(k, map val xs)]"
proof (cases xs)
  case Nil
  with assms(1) show ?thesis by simp
next
  case (Cons x ys)
  with assms(2) have "key x = k" and rest: "\<forall>y \<in> set ys. key y = k" by simp_all
  then show ?thesis
    using push_all_same [OF rest assms(3), of val "[val x]"] assms(3) by (simp add: Cons)
qed

lemma Object_entries_single: "Object_entries [e] = [e]"
  by (simp add: Object_entries_def)

lemma detect_single_group:
  assumes "7 \<le> length (load_points opts rt s)"
    and "\<forall>p \<in> set (load_points opts rt s). group_key p = k"
    and "k \<notin> set Object_prototype_names"
  shows "detectAnomalies opts rt s =
     Inr (check_group (case d_threshold opts of None \<Rightarrow> 5 / 2 | Some t \<Rightarrow> t) (d_userId opts)
            (k, load_points opts rt s))"
proof -
  have ne: "load_points opts rt s \<noteq> []" using assms(1) by auto
  show ?thesis
    using assms(1) push_all_single_group [OF ne assms(2,3), of id]
    by (simp add: detectAnomalies_def Let_def Object_entries_single)
qed

subsection \<open>The statistics of the costs 100, 100, 100, 100, 100, 100, 400\<close>

lemma mean7: "mean_of costs7 = 1000 / 7"
  by (simp add: mean_of_def costs7_def)

lemma var7: "variance_of costs7 = (1800 / 7)\<^sup>2 / 6"
  by (simp add: variance_of_def mean7) (simp add: costs7_def power2_eq_square)

lemma sd7: "stdDev_of costs7 = (1800 / 7) / sqrt 6"
  unfolding stdDev_of_def var7 by (simp add: real_sqrt_divide)

lemma sd7_pos: "0 < stdDev_of costs7"
  unfolding sd7 by simp

lemma z_high: "\<bar>(400 - 1000 / 7) / stdDev_of costs7\<bar> = sqrt 6"
  unfolding sd7 by simp

lemma z_low: "\<bar>(100 - 1000 / 7) / stdDev_of costs7\<bar> = sqrt 6 / 6"
  unfolding sd7 by simp

lemma sqrt6_le_3: "sqrt 6 \<le> 3"
  by (rule real_le_lsqrt) simp_all

lemma sqrt6_gt_2: "2 < sqrt 6"
  by (rule real_less_rsqrt) simp

lemma sqrt6_lt_default: "sqrt 6 < 5 / 2"
  by (rule real_less_lsqrt) (simp_all add: power2_eq_square)

lemma check_point_high:
  assumes "p_totalCost p = 400"
  shows "check_point thr uid k (mean_of costs7) (stdDev_of costs7) p =
     (if thr < sqrt 6 then [spike_of_seven uid k (p_date p)] else [])"
proof -
  have z: "\<bar>(p_totalCost p - mean_of costs7) / stdDev_of costs7\<bar> = sqrt 6"
    using z_high by (simp add: assms mean7)
  have "\<not> 3 < sqrt 6" "\<not> 4 < sqrt 6" using sqrt6_le_3 by linarith+
  then show ?thesis
    unfolding check_point_def z Let_def by (simp add: assms mean7 spike_of_seven_def)
qed

lemma check_point_low:
  assumes "p_totalCost p = 100" and "sqrt 6 / 6 \<le> thr"
  shows "check_point thr uid k (mean_of costs7) (stdDev_of costs7) p = []"
proof -
  have z: "\<bar>(p_totalCost p - mean_of costs7) / stdDev_of costs7\<bar> = sqrt 6 / 6"
    using z_low by (simp add: assms mean7)
  show ?thesis
    unfolding check_point_def z Let_def using assms(2) by simp
qed

lemma check_group_seven:
  assumes "map p_totalCost pts = costs7" and "sqrt 6 / 6 \<le> thr"
  shows "check_group thr uid (k, pts) =
     (if thr < sqrt 6 then [spike_of_seven uid k (p_date (last pts))] else [])"
proof -
  from assms(1) obtain p0 p1 p2 p3 p4 p5 p6 where
    pts: "pts = [p0, p1, p2, p3, p4, p5, p6]" and
    c: "p_totalCost p0 = 100" "p_totalCost p1 = 100" "p_totalCost p2 = 100" "p_totalCost p3 = 100"
       "p_totalCost p4 = 100" "p_totalCost p5 = 100" "p_totalCost p6 = 400"
    unfolding costs7_def by (auto simp: map_eq_Cons_conv)
  have "check_group thr uid (k, pts) =
      concat (map (check_point thr uid k (mean_of costs7) (stdDev_of costs7)) pts)"
    using sd7_pos by (simp add: check_group_def assms(1))
  also have "\<dots> = check_point thr uid k (mean_of costs7) (stdDev_of costs7) p6"
    by (simp add: pts check_point_low [OF _ assms(2)] c)
  finally show ?thesis
    by (simp add: check_point_high [OF c(7)] pts)
qed

subsection \<open>The example week\<close>

lemma load_week:
  "load_points detect_defaults rt_ex db_week = map point_of (aggregates db_week)"
  "load_points detect_two rt_ex db_week = map point_of (aggregates db_week)"
  by code_simp+

lemma week_costs: "map p_totalCost (map point_of (aggregates db_week)) = costs7"
  by code_simp

lemma week_keys: "\<forall>p \<in> set (map point_of (aggregates db_week)). group_key p = week_key"
  by code_simp

lemma week_key_own: "week_key \<notin> set Object_prototype_names"
  by code_simp

lemma week_last: "p_date (last (map point_of (aggregates db_week))) = 1704326400000"
  by code_simp

lemma detect_week_two:
  "detectAnomalies detect_two rt_ex db_week =
   Inr [spike_of_seven (Some 1) week_key 1704326400000]"
proof -
  have thr: "d_threshold detect_two = Some 2" and uid: "d_userId detect_two = Some 1"
    by (simp_all add: detect_two_def detect_defaults_def)
  have len: "7 \<le> length (load_points detect_two rt_ex db_week)"
    unfolding load_week by (simp add: db_week_def)
  have "sqrt 6 / 6 \<le> (2 :: real)" using sqrt6_le_3 by simp
  then show ?thesis
    using detect_single_group [OF len, of week_key] week_keys week_key_own sqrt6_gt_2
      check_group_seven [OF week_costs, of 2 "Some 1" week_key]
    by (simp add: load_week thr uid week_last)
qed

text \<open>
  C7 (amended). For one group whose seven daily costs are 100, 100, 100, 100, 100, 100,
  400 the group mean is 1000/7 and the z-score of the 400 point, with the population
  standard deviation, is the square root of 6, about 2.449. With the default threshold
  2.5 the detector therefore emits nothing. With a threshold \<open>t\<close> such that
  \<open>sqrt 6 / 6 \<le> t < sqrt 6\<close> it flags exactly the 400 point: one anomaly of type spike and
  severity medium, with \<open>expectedCost\<close> 1000/7.
\<close>

theorem seven_point_group:
  assumes "map p_totalCost (load_points opts rt s) = costs7"
    and "\<forall>p \<in> set (load_points opts rt s). group_key p = k"
    and "k \<notin> set Object_prototype_names"
  shows "(d_threshold opts = None \<longrightarrow> detectAnomalies opts rt s = Inr []) \<and>
         (\<forall>t. d_threshold opts = Some t \<and> sqrt 6 / 6 \<le> t \<and> t < sqrt 6 \<longrightarrow>
            detectAnomalies opts rt s =
              Inr [spike_of_seven (d_userId opts) k (p_date (last (load_points opts rt s)))]) \<and>
         atype (spike_of_seven (d_userId opts) k d) = Spike \<and>
         severity (spike_of_seven (d_userId opts) k d) = Medium \<and>
         expectedCost (spike_of_seven (d_userId opts) k d) = 1000 / 7 \<and>
         an_cost (spike_of_seven (d_userId opts) k d) = 400 \<and>
         zScore (spike_of_seven (d_userId opts) k d) = sqrt 6"
proof -
  have "length (map p_totalCost (load_points opts rt s)) = 7"
    unfolding assms(1) by (simp add: costs7_def)
  then have len: "7 \<le> length (load_points opts rt s)" by simp
  note run = detect_single_group [OF len assms(2,3)]
  have "sqrt 6 / 6 \<le> (5 / 2 :: real)" using sqrt6_le_3 by simp
  then have default: "d_threshold opts = None \<longrightarrow> detectAnomalies opts rt s = Inr []"
    using run check_group_seven [OF assms(1), of "5 / 2" "d_userId opts" k] sqrt6_lt_default
    by simp
  have other: "detectAnomalies opts rt s =
      Inr [spike_of_seven (d_userId opts) k (p_date (last (load_points opts rt s)))]"
    if "d_threshold opts = Some t" "sqrt 6 / 6 \<le> t" "t < sqrt 6" for t
    using run check_group_seven [OF assms(1), of t "d_userId opts" k] that by simp
  show ?thesis
    using default other by (simp add: spike_of_seven_def)
qed

theorem seven_point_group_witness:
  "map p_totalCost (load_points detect_defaults rt_ex db_week) = costs7 \<and>
   d_threshold detect_defaults = None \<and>
   detectAnomalies detect_defaults rt_ex db_week = Inr []"
proof -
  have costs: "map p_totalCost (load_points detect_defaults rt_ex db_week) = costs7"
    unfolding load_week by (rule week_costs)
  have keys: "\<forall>p \<in> set (load_points detect_defaults rt_ex db_week). group_key p = week_key"
    unfolding load_week by (rule week_keys)
  have none: "d_threshold detect_defaults = None"
    by (simp add: detect_defaults_def)
  show ?thesis
    using seven_point_group [OF costs keys week_key_own] costs none by simp
qed

text \<open>
  The claim as stated fails on the example week: the seven daily rows carry the costs of
  the example, the options leave the threshold at its default, and no anomaly is emitted.
\<close>

theorem seven_point_default_counterexample:
  "map totalCost (aggregates db_week) = [100, 100, 100, 100, 100, 100, 400] \<and>
   d_threshold detect_defaults = None \<and>
   detectAnomalies detect_defaults rt_ex db_week \<noteq>
     Inr [spike_of_seven (Some 1) week_key 1704326400000] \<and>
   detectAnomalies detect_defaults rt_ex db_week = Inr []"
proof -
  have data: "map totalCost (aggregates db_week) = [100, 100, 100, 100, 100, 100, 400]"
    by code_simp
  have none: "d_threshold detect_defaults = None" and uid: "d_userId detect_defaults = Some 1"
    by (simp_all add: detect_defaults_def)
  have len: "7 \<le> length (load_points detect_defaults rt_ex db_week)"
    unfolding load_week by (simp add: db_week_def)
  have keys: "\<forall>p \<in> set (load_points detect_defaults rt_ex db_week). group_key p = week_key"
    unfolding load_week by (rule week_keys)
  have "sqrt 6 / 6 \<le> (5 / 2 :: real)" using sqrt6_le_3 by simp
  then have "detectAnomalies detect_defaults rt_ex db_week = Inr []"
    using detect_single_group [OF len keys week_key_own] sqrt6_lt_default
      check_group_seven [OF week_costs, of "5 / 2" "Some 1" week_key]
    by (simp add: load_week none uid)
  then show ?thesis using data none by simp
qed

subsection \<open>Severities\<close>

lemma check_point_severity:
  "a \<in> set (check_point thr uid k m sd p) \<Longrightarrow>
   severity a = Medium \<or> severity a = High \<or> severity a = Critical"
  by (auto simp: check_point_def Let_def split: if_splits)

lemma check_group_severity:
  "a \<in> set (check_group thr uid g) \<Longrightarrow>
   severity a = Medium \<or> severity a = High \<or> severity a = Critical"
  by (auto simp: check_group_def Let_def split: if_splits dest: check_point_severity)

text \<open>
  C10. Every anomaly the detector returns has severity medium, high or critical; the
  value low of the schema's enumeration is never assigned.
\<close>

theorem severity_never_low:
  assumes "detectAnomalies opts rt s = Inr found" and "a \<in> set found"
  shows "(severity a = Medium \<or> severity a = High \<or> severity a = Critical) \<and> severity a \<noteq> Low"
proof -
  from assms obtain g thr where "a \<in> set (check_group thr (d_userId opts) g)"
    by (auto simp: detectAnomalies_def Let_def split: if_splits sum.splits)
  from check_group_severity [OF this] show ?thesis by auto
qed

theorem severity_never_low_witness:
  "detectAnomalies detect_two rt_ex db_week = Inr [spike_of_seven (Some 1) week_key 1704326400000] \<and>
   severity (spike_of_seven (Some 1) week_key 1704326400000) = Medium \<and>
   severity (spike_of_seven (Some 1) week_key 1704326400000) \<noteq> Low"
  using severity_never_low [OF detect_week_two, of "spike_of_seven (Some 1) week_key 1704326400000"]
    detect_week_two
  by (simp add: spike_of_seven_def)

subsection \<open>The fallback of the detector\<close>

lemma dailyMap_keys:
  "fst ` set (dailyMap items) = fallback_key ` set items"
  "distinct (map fst (dailyMap items))"
  by (simp_all add: dailyMap_def fold_group_keys fold_group_distinct)

lemma dailyMap_entries:
  "\<forall>e \<in> set (dailyMap items). \<exists>i \<in> set items.
     fallback_key i = fst e \<and> p_date (snd e) = item_day i \<and>
     p_accountId (snd e) = Some (li_accountId i) \<and> p_service (snd e) = Some (li_service i) \<and>
     p_region (snd e) = li_region i"
  unfolding dailyMap_def
  by (rule fold_group_entries
        [where Q = "\<lambda>k v. \<exists>i \<in> set items. fallback_key i = k \<and> p_date v = item_day i \<and>
           p_accountId v = Some (li_accountId i) \<and> p_service v = Some (li_service i) \<and>
           p_region v = li_region i"])
     (auto simp: add_to_point_def new_point_def)

lemma dailyMap_cost:
  assumes "(k, p) \<in> set (dailyMap items)"
  shows "p_totalCost p = sum_list (map li_cost (filter (\<lambda>i. fallback_key i = k) items))"
proof -
  have "sum_list (map (\<lambda>e. if fst e = k then p_totalCost (snd e) else 0) (dailyMap items)) =
      sum_list (map li_cost (filter (\<lambda>i. fallback_key i = k) items))"
    using fold_group_sum_at [where w = p_totalCost and c = li_cost and add = add_to_point
        and ini = new_point and key = fallback_key and m = "[]" and items = items and k = k]
    by (simp add: dailyMap_def add_to_point_def new_point_def num_or0_def)
  then show ?thesis
    using distinct_entry_sum [OF dailyMap_keys(2) assms, of p_totalCost] by simp
qed

lemma fallback_points:
  assumes clean: "\<forall>i \<in> set items. no_underscore (li_accountId i) \<and> no_underscore (li_service i)"
  shows "distinct (map point_group (map snd (dailyMap items)))"
    and "set (map point_group (map snd (dailyMap items))) = group_of ` set items"
    and "\<forall>p \<in> set (map snd (dailyMap items)).
           p_totalCost p = sum_list (map li_cost (filter (\<lambda>j. group_of j = point_group p) items))"
    and "\<forall>p \<in> set (map snd (dailyMap items)). \<exists>i \<in> set items.
           p_date p = item_day i \<and> p_accountId p = Some (li_accountId i) \<and>
           p_service p = Some (li_service i) \<and> p_region p = li_region i"
proof -
  have key: "(fallback_key i = fallback_key j) = (group_of i = group_of j)"
    if "i \<in> set items" "j \<in> set items" for i j
    using that clean by (intro fallback_key_eq) auto
  have ent: "\<exists>i \<in> set items. fallback_key i = fst e \<and> point_group (snd e) = group_of i \<and>
      p_date (snd e) = item_day i \<and> p_accountId (snd e) = Some (li_accountId i) \<and>
      p_service (snd e) = Some (li_service i) \<and> p_region (snd e) = li_region i"
    if "e \<in> set (dailyMap items)" for e
    using dailyMap_entries that
    by (fastforce simp: point_group_def group_of_def opt_str_or_def)
  show "\<forall>p \<in> set (map snd (dailyMap items)). \<exists>i \<in> set items.
           p_date p = item_day i \<and> p_accountId p = Some (li_accountId i) \<and>
           p_service p = Some (li_service i) \<and> p_region p = li_region i"
    using ent by fastforce
  have inj: "inj_on (\<lambda>e. point_group (snd e)) (set (dailyMap items))"
  proof (rule inj_onI)
    fix e1 e2
    assume m: "e1 \<in> set (dailyMap items)" "e2 \<in> set (dailyMap items)"
      and eq: "point_group (snd e1) = point_group (snd e2)"
    from ent [OF m(1)] obtain i1 where i1: "i1 \<in> set items" "fallback_key i1 = fst e1"
      "point_group (snd e1) = group_of i1" by blast
    from ent [OF m(2)] obtain i2 where i2: "i2 \<in> set items" "fallback_key i2 = fst e2"
      "point_group (snd e2) = group_of i2" by blast
    have "fst e1 = fst e2" using key [OF i1(1) i2(1)] i1 i2 eq by simp
    then show "e1 = e2"
      using m dailyMap_keys(2) [of items] by (metis eq_key_imp_eq_value prod.collapse)
  qed
  have "distinct (dailyMap items)"
    using dailyMap_keys(2) [of items] by (simp add: distinct_map)
  then have "distinct (map (\<lambda>e. point_group (snd e)) (dailyMap items))"
    using inj by (simp add: distinct_map)
  then show "distinct (map point_group (map snd (dailyMap items)))"
    by (simp add: comp_def)
  show "set (map point_group (map snd (dailyMap items))) = group_of ` set items"
  proof (intro set_eqI iffI)
    fix g
    assume "g \<in> set (map point_group (map snd (dailyMap items)))"
    then obtain e where "e \<in> set (dailyMap items)" "g = point_group (snd e)" by auto
    then show "g \<in> group_of ` set items" using ent by blast
  next
    fix g
    assume "g \<in> group_of ` set items"
    then obtain i where i: "i \<in> set items" "g = group_of i" by auto
    then have "fallback_key i \<in> fst ` set (dailyMap items)"
      by (simp add: dailyMap_keys)
    then obtain e where e: "e \<in> set (dailyMap items)" "fst e = fallback_key i" by auto
    from ent [OF e(1)] obtain j where j: "j \<in> set items" "fallback_key j = fst e"
      "point_group (snd e) = group_of j" by blast
    have "group_of j = group_of i" using key [OF j(1) i(1)] j(2) e(2) by simp
    then show "g \<in> set (map point_group (map snd (dailyMap items)))"
      using e(1) j(3) i(2) by force
  qed
  show "\<forall>p \<in> set (map snd (dailyMap items)).
           p_totalCost p = sum_list (map li_cost (filter (\<lambda>j. group_of j = point_group p) items))"
  proof
    fix p
    assume "p \<in> set (map snd (dailyMap items))"
    then obtain k where kp: "(k, p) \<in> set (dailyMap items)" by auto
    from ent [OF kp] obtain i where i: "i \<in> set items" "fallback_key i = k"
      "point_group p = group_of i" by auto
    have "filter (\<lambda>j. fallback_key j = k) items = filter (\<lambda>j. group_of j = point_group p) items"
      using key [OF _ i(1)] i(2,3) by (intro filter_cong) auto
    then show "p_totalCost p = sum_list (map li_cost (filter (\<lambda>j. group_of j = point_group p) items))"
      using dailyMap_cost [OF kp] by simp
  qed
qed


lemma items_found:
  "find_daily detect_defaults (lookback_start detect_defaults rt_ex) (now rt_ex) (aggregates db_items) = []"
  "find_items detect_defaults (lookback_start detect_defaults rt_ex) (now rt_ex) (lineItems db_items) =
     [item_ex 1 1704326400000 ''123456789012'' ''Amazon EC2'' 2,
      item_ex 1 1704330000000 ''123456789012'' ''Amazon EC2'' 3,
      item_ex 1 1704330000000 ''123456789012'' ''Amazon S3'' 4]"
  by code_simp+

lemma items_keys:
  "fallback_key (item_ex 1 1704326400000 ''123456789012'' ''Amazon EC2'' 2) =
     ''2024-01-04T00:00:00.000Z_123456789012_Amazon EC2_us-east-1''"
  "fallback_key (item_ex 1 1704330000000 ''123456789012'' ''Amazon EC2'' 3) =
     ''2024-01-04T00:00:00.000Z_123456789012_Amazon EC2_us-east-1''"
  "fallback_key (item_ex 1 1704330000000 ''123456789012'' ''Amazon S3'' 4) =
     ''2024-01-04T00:00:00.000Z_123456789012_Amazon S3_us-east-1''"
  by code_simp+

lemma items_days:
  "item_day (item_ex 1 1704326400000 ''123456789012'' ''Amazon EC2'' 2) = 1704326400000"
  "item_day (item_ex 1 1704330000000 ''123456789012'' ''Amazon EC2'' 3) = 1704326400000"
  "item_day (item_ex 1 1704330000000 ''123456789012'' ''Amazon S3'' 4) = 1704326400000"
  by code_simp+

lemma items_points:
  "add_to_point (item_ex 1 1704330000000 ''123456789012'' ''Amazon EC2'' 3)
     (add_to_point (item_ex 1 1704326400000 ''123456789012'' ''Amazon EC2'' 2)
        (new_point (item_ex 1 1704326400000 ''123456789012'' ''Amazon EC2'' 2))) =
   \<lparr> p_date = 1704326400000, p_accountId = Some ''123456789012'', p_service = Some ''Amazon EC2'',
     p_region = Some ''us-east-1'', p_totalCost = 5 \<rparr>"
  "add_to_point (item_ex 1 1704330000000 ''123456789012'' ''Amazon S3'' 4)
     (new_point (item_ex 1 1704330000000 ''123456789012'' ''Amazon S3'' 4)) =
   \<lparr> p_date = 1704326400000, p_accountId = Some ''123456789012'', p_service = Some ''Amazon S3'',
     p_region = Some ''us-east-1'', p_totalCost = 4 \<rparr>"
  by code_simp+

lemma items_fallback:
  "load_points detect_defaults rt_ex db_items =
     [\<lparr> p_date = 1704326400000, p_accountId = Some ''123456789012'', p_service = Some ''Amazon EC2'',
        p_region = Some ''us-east-1'', p_totalCost = 5 \<rparr>,
      \<lparr> p_date = 1704326400000, p_accountId = Some ''123456789012'', p_service = Some ''Amazon S3'',
        p_region = Some ''us-east-1'', p_totalCost = 4 \<rparr>]"
  using items_points items_keys items_found
  by (simp add: load_points_def dailyMap_def)

lemma items_clean:
  "\<forall>i \<in> set (find_items detect_defaults (lookback_start detect_defaults rt_ex) (now rt_ex)
                  (lineItems db_items)).
     no_underscore (li_accountId i) \<and> no_underscore (li_service i)"
  using items_found(2) by (simp add: item_ex_def no_underscore_simps)

text \<open>
  C6 (amended). When no daily aggregate matches the query, the detector builds its data
  points from the line items the fallback query returns, grouped by the start of the
  day, the account, the service and the region (\<open>all\<close> standing for an absent or empty
  one), not by the day alone. For items whose account and service contain no underscore
  there is exactly one data point per group; its \<open>totalCost\<close> is the sum of \<open>cost\<close> over
  the items of the group, and its date, account, service and region are those of an
  item of the group.
\<close>

theorem fallback_groups_by_day_account_service_region:
  assumes "find_daily opts (lookback_start opts rt) (now rt) (aggregates s) = []"
    and "\<forall>i \<in> set (find_items opts (lookback_start opts rt) (now rt) (lineItems s)).
           no_underscore (li_accountId i) \<and> no_underscore (li_service i)"
  shows "distinct (map point_group (load_points opts rt s)) \<and>
         set (map point_group (load_points opts rt s)) =
           group_of ` set (find_items opts (lookback_start opts rt) (now rt) (lineItems s)) \<and>
         (\<forall>p \<in> set (load_points opts rt s).
            p_totalCost p =
              sum_list (map li_cost
                (filter (\<lambda>j. group_of j = point_group p)
                   (find_items opts (lookback_start opts rt) (now rt) (lineItems s))))) \<and>
         (\<forall>p \<in> set (load_points opts rt s).
            \<exists>i \<in> set (find_items opts (lookback_start opts rt) (now rt) (lineItems s)).
              p_date p = item_day i \<and> p_accountId p = Some (li_accountId i) \<and>
              p_service p = Some (li_service i) \<and> p_region p = li_region i)"
proof -
  have "load_points opts rt s =
      map snd (dailyMap (find_items opts (lookback_start opts rt) (now rt) (lineItems s)))"
    using assms(1) by (simp add: load_points_def)
  then show ?thesis
    using fallback_points [OF assms(2)] by simp
qed

theorem fallback_groups_witness:
  "find_daily detect_defaults (lookback_start detect_defaults rt_ex) (now rt_ex) (aggregates db_items) = [] \<and>
   map li_service (find_items detect_defaults (lookback_start detect_defaults rt_ex) (now rt_ex)
                     (lineItems db_items)) = [''Amazon EC2'', ''Amazon EC2'', ''Amazon S3''] \<and>
   distinct (map point_group (load_points detect_defaults rt_ex db_items)) \<and>
   map p_totalCost (load_points detect_defaults rt_ex db_items) = [5, 4]"
  using fallback_groups_by_day_account_service_region [OF items_found(1) items_clean]
    items_found items_fallback
  by (simp add: item_ex_def)

text \<open>
  The claim as stated fails on the example store: the three line items of user 1 fall
  on one day, and the fallback yields two data points for that day, one per service,
  each carrying its account, service and region.
\<close>

theorem fallback_day_only_counterexample:
  "aggregates db_items = [] \<and>
   map item_day (find_items detect_defaults (lookback_start detect_defaults rt_ex) (now rt_ex)
                   (lineItems db_items)) = [1704326400000, 1704326400000, 1704326400000] \<and>
   map li_cost (find_items detect_defaults (lookback_start detect_defaults rt_ex) (now rt_ex)
                  (lineItems db_items)) = [2, 3, 4] \<and>
   load_points detect_defaults rt_ex db_items =
     [\<lparr> p_date = 1704326400000, p_accountId = Some ''123456789012'', p_service = Some ''Amazon EC2'',
        p_region = Some ''us-east-1'', p_totalCost = 5 \<rparr>,
      \<lparr> p_date = 1704326400000, p_accountId = Some ''123456789012'', p_service = Some ''Amazon S3'',
        p_region = Some ''us-east-1'', p_totalCost = 4 \<rparr>]"
  using items_fallback items_days items_found(2)
  by (simp add: db_items_def) (simp add: item_ex_def)

section \<open>Properties of the normalizer\<close>

lemma map_column_cell: "cell (n f) \<Longrightarrow> cell (map_column r cm n f)"
  by (auto simp: map_column_def cell_def split: option.splits)

lemma fold_map_column_cell: "cell (n f) \<Longrightarrow> cell (fold (map_column r) cs n f)"
  by (induction cs arbitrary: n) (simp_all add: map_column_cell)

lemma map_columns_cell:
  "f \<noteq> ''ingestionJobId'' \<Longrightarrow> f \<noteq> ''ingestionDate'' \<Longrightarrow>
   cell (map_columns r (new_normalized rt j) f)"
  unfolding map_columns_def
  by (rule fold_map_column_cell) (simp add: new_normalized_def cell_def)

lemma parse_date_field_other: "g \<noteq> f \<Longrightarrow> parse_date_field p f n g = n g"
  by (simp add: parse_date_field_def split: option.splits jsval.splits)

lemma parse_float_field_other: "g \<noteq> f \<Longrightarrow> parse_float_field f n g = n g"
  by (simp add: parse_float_field_def split: option.splits jsval.splits)

lemma parse_float_field_same: "cell (n f) \<Longrightarrow> numeric (parse_float_field f n f)"
  by (auto simp: parse_float_field_def cell_def numeric_def)

lemma parsed_names:
  assumes "f = ''linkedAccountId'' \<or> f = ''payerAccountId'' \<or> f = ''productName'' \<or> f = ''productCode''"
  shows "cell (parse_numbers (parse_dates rt (map_columns r (new_normalized rt j))) f)"
  using assms
  by (auto simp: parse_numbers_def parse_dates_def parse_float_field_other parse_date_field_other
      intro!: map_columns_cell)

lemma parsed_costs:
  assumes "f = ''unblendedCost'' \<or> f = ''blendedCost''"
  shows "numeric (parse_numbers (parse_dates rt (map_columns r (new_normalized rt j))) f)"
  using assms
  by (auto simp: parse_numbers_def parse_dates_def parse_float_field_other parse_date_field_other
      intro!: map_columns_cell parse_float_field_same)

lemma js_or_cells:
  "cell a \<Longrightarrow> cell b \<Longrightarrow> d \<noteq> [] \<Longrightarrow>
   \<exists>s. js_or (js_or a b) (Some (Str d)) = Some (Str s) \<and> s \<noteq> []"
  by (auto simp: js_or_def cell_def)

lemma truthy_number: "truthy (Some (Number x)) \<Longrightarrow> \<exists>c. x = Num c"
  by (cases x) auto

lemma js_or_numeric:
  assumes "numeric a" and "numeric b"
  shows "\<exists>c. js_or (js_or a b) (Some (Number (Num 0))) = Some (Number (Num c))"
proof (cases "truthy a")
  case True
  with assms(1) obtain x where "a = Some (Number x)" by (auto simp: numeric_def)
  with True show ?thesis using truthy_number by (auto simp: js_or_def)
next
  case False
  show ?thesis
  proof (cases "truthy b")
    case True
    with assms(2) obtain x where "b = Some (Number x)" by (auto simp: numeric_def)
    with True \<open>\<not> truthy a\<close> show ?thesis using truthy_number by (auto simp: js_or_def)
  next
    case False
    with \<open>\<not> truthy a\<close> show ?thesis by (simp add: js_or_def)
  qed
qed

lemma stage_other:
  "f \<noteq> ''accountId'' \<Longrightarrow> set_accountId n f = n f"
  "f \<noteq> ''service'' \<Longrightarrow> set_service n f = n f"
  "f \<noteq> ''region'' \<Longrightarrow> set_region n f = n f"
  "f \<noteq> ''cost'' \<Longrightarrow> set_cost n f = n f"
  "f \<noteq> ''usageQuantityNormalized'' \<Longrightarrow> set_usageQuantityNormalized n f = n f"
  "f \<noteq> ''usageTypeNormalized'' \<Longrightarrow> set_usageTypeNormalized n f = n f"
  "f \<noteq> ''tags'' \<Longrightarrow> set_tags r n f = n f"
  by (simp_all add: set_accountId_def set_service_def set_region_def set_cost_def
      set_usageQuantityNormalized_def set_usageTypeNormalized_def set_tags_def)

lemma normalized_accountId:
  "\<exists>a. normalizeLineItem rt r j ''accountId'' = Some (Str a) \<and> a \<noteq> []"
proof -
  let ?n = "parse_numbers (parse_dates rt (map_columns r (new_normalized rt j)))"
  have "normalizeLineItem rt r j ''accountId'' = set_accountId ?n ''accountId''"
    by (simp add: normalizeLineItem_def stage_other)
  also have "\<dots> = js_or (js_or (?n ''linkedAccountId'') (?n ''payerAccountId'')) (Some (Str ''unknown''))"
    by (simp add: set_accountId_def)
  finally show ?thesis
    using js_or_cells [of "?n ''linkedAccountId''" "?n ''payerAccountId''" "''unknown''"]
    by (simp add: parsed_names)
qed

lemma normalized_service:
  "\<exists>a. normalizeLineItem rt r j ''service'' = Some (Str a) \<and> a \<noteq> []"
proof -
  let ?n = "set_accountId (parse_numbers (parse_dates rt (map_columns r (new_normalized rt j))))"
  have "normalizeLineItem rt r j ''service'' = set_service ?n ''service''"
    by (simp add: normalizeLineItem_def stage_other)
  also have "\<dots> = js_or (js_or (?n ''productName'') (?n ''productCode'')) (Some (Str ''unknown''))"
    by (simp add: set_service_def)
  finally show ?thesis
    using js_or_cells [of "?n ''productName''" "?n ''productCode''" "''unknown''"]
    by (simp add: parsed_names stage_other)
qed

lemma normalized_cost:
  "\<exists>c. normalizeLineItem rt r j ''cost'' = Some (Number (Num c))"
proof -
  let ?m = "parse_numbers (parse_dates rt (map_columns r (new_normalized rt j)))"
  let ?n = "set_region (set_service (set_accountId ?m))"
  have "normalizeLineItem rt r j ''cost'' = set_cost ?n ''cost''"
    by (simp add: normalizeLineItem_def stage_other)
  also have "\<dots> = js_or (js_or (?n ''unblendedCost'') (?n ''blendedCost'')) (Some (Number (Num 0)))"
    by (simp add: set_cost_def)
  also have "\<dots> = js_or (js_or (?m ''unblendedCost'') (?m ''blendedCost'')) (Some (Number (Num 0)))"
    by (simp add: stage_other)
  finally show ?thesis
    using js_or_numeric [of "?m ''unblendedCost''" "?m ''blendedCost''"]
    by (simp add: parsed_costs)
qed

lemma normalized_not_missing:
  "\<not> missing_required ((normalizeLineItem rt r j)(''userId'' \<mapsto> ObjId uid))"
  using normalized_accountId [of rt r j] normalized_service [of rt r j] normalized_cost [of rt r j]
  by (auto simp: missing_required_def falsy_def)

text \<open>
  C9. For every row and job the normalizer's output has a non-empty \<open>accountId\<close>, a
  non-empty \<open>service\<close> and a numeric \<open>cost\<close>, so the required-field check of the data
  handler is false for every row: the handler never takes the branch that counts the
  row as skipped with the message "Missing required fields", and always buffers the row.
\<close>

theorem required_fields_always_present:
  "(\<exists>a. normalizeLineItem rt r jobId ''accountId'' = Some (Str a) \<and> a \<noteq> []) \<and>
   (\<exists>sv. normalizeLineItem rt r jobId ''service'' = Some (Str sv) \<and> sv \<noteq> []) \<and>
   (\<exists>c. normalizeLineItem rt r jobId ''cost'' = Some (Number (Num c))) \<and>
   missing_required ((normalizeLineItem rt r jobId)(''userId'' \<mapsto> ObjId uid)) = False \<and>
   on_data rt chunkSize jobId uid r st =
     (let st' = st\<lparr> rowCount := rowCount st + 1,
                    batch := batch st @ [(normalizeLineItem rt r jobId)(''userId'' \<mapsto> ObjId uid)] \<rparr>
      in if chunkSize \<le> length (batch st') then start_flush st' else st')"
  using normalized_accountId [of rt r jobId] normalized_service [of rt r jobId]
    normalized_cost [of rt r jobId] normalized_not_missing [of rt r jobId uid]
  by (simp add: on_data_def Let_def)

text \<open>
  C5 (the code departs from the claim). An unblended cost that is present and parses to
  0 is passed over by \<open>||\<close>: the cost of the row below is the blended cost 0.5, not the
  parsed unblended cost 0.
\<close>

theorem zero_unblended_cost_falls_through:
  "map_of row_zero_unblended ''UnblendedCost'' = Some ''0'' \<and>
   parseFloat ''0'' = Num 0 \<and>
   normalizeLineItem rt_ex row_zero_unblended 7 ''cost'' = Some (Number (Num (1 / 2)))"
  by code_simp

section \<open>Properties of the ingestion pipeline\<close>

subsection \<open>A run over the one-row file on the repository's store\<close>

lemma cast_row_one:
  "cast_LineItem ((normalizeLineItem rt_ex row_one 7)(''userId'' \<mapsto> ObjId 1)) = Some item_one"
  by code_simp

lemma cast_row_one_Suc:
  "cast_LineItem ((normalizeLineItem rt_ex row_one 7)(''userId'' \<mapsto> ObjId (Suc 0))) = Some item_one"
  using cast_row_one by simp

lemma BillingLineItem_insertMany_appends:
  "BillingLineItem_insertMany docs c = (None, c @ List.map_filter cast_LineItem docs)"
proof -
  have "unique_conflict BillingLineItem_unique = (\<lambda>d e. False)"
    by (simp add: unique_conflict_def BillingLineItem_unique_def fun_eq_iff)
  then show ?thesis
    by (simp add: BillingLineItem_insertMany_def LineItem_insertMany_def insertMany_def
        insert_unordered_no_conflict)
qed

lemma on_data_buffers:
  "on_data rt chunkSize jobId uid r st =
     (let st' = st\<lparr> rowCount := rowCount st + 1,
                    batch := batch st @ [(normalizeLineItem rt r jobId)(''userId'' \<mapsto> ObjId uid)] \<rparr>
      in if chunkSize \<le> length (batch st') then start_flush st' else st')"
  using normalized_not_missing [of rt r jobId uid] by (simp add: on_data_def Let_def)

lemma process_one_row:
  assumes "jobs s 7 = Some job" and "job_userId job = Some 1"
  shows "run_once s =
     (Some (Inr \<lparr> processed = 1, skipped = 0, total = 1 \<rparr>),
      aggregateData
        (s\<lparr> lineItems := lineItems s @ [item_one], jobs := (jobs s)(7 \<mapsto> done_job job) \<rparr>) 7)"
  using assms
  by (simp add: run_once_def processCSVFile_def run_stream_def start_state_def file_one_row_def
      default_options_def on_data_buffers on_end_def final_written_def written_def update_job_def
      job_saved_def save_job_def aggregated_def resolve_def
      BillingLineItem_insertMany_appends cast_row_one_Suc finish_job_def Let_def done_job_def)

lemma run_once_effect:
  assumes "jobs s 7 = Some job" and "job_userId job = Some 1"
  shows "fst (run_once s) = Some (Inr \<lparr> processed = 1, skipped = 0, total = 1 \<rparr>)"
    and "lineItems (snd (run_once s)) = lineItems s @ [item_one]"
    and "jobs (snd (run_once s)) 7 = Some (done_job job)"
    and "sum_list (map totalCost (filter (is_daily_of 1) (aggregates (snd (run_once s))))) =
         sum_list (map li_cost (filter (\<lambda>i. li_userId i = Some 1) (lineItems s))) + 5 / 2"
    and "sum_list (map totalCost (filter (is_monthly_of 1) (aggregates (snd (run_once s))))) =
         sum_list (map li_cost (filter (\<lambda>i. li_userId i = Some 1) (lineItems s))) + 5 / 2"
proof -
  let ?s1 = "s\<lparr> lineItems := lineItems s @ [item_one], jobs := (jobs s)(7 \<mapsto> done_job job) \<rparr>"
  note run = process_one_row [OF assms]
  show "fst (run_once s) = Some (Inr \<lparr> processed = 1, skipped = 0, total = 1 \<rparr>)"
    by (simp add: run)
  show "lineItems (snd (run_once s)) = lineItems s @ [item_one]"
    by (simp add: run aggregateData_lineItems)
  show "jobs (snd (run_once s)) 7 = Some (done_job job)"
    by (simp add: run aggregateData_jobs)
  have job: "jobs ?s1 7 = Some (done_job job)" by simp
  have user: "job_userId (done_job job) = Some 1" using assms(2) by (simp add: done_job_def)
  have items: "filter (\<lambda>i. li_userId i = Some 1) (lineItems ?s1) \<noteq> []"
    by (simp add: item_one_def)
  have cost: "sum_list (map li_cost (filter (\<lambda>i. li_userId i = Some 1) (lineItems ?s1))) =
      sum_list (map li_cost (filter (\<lambda>i. li_userId i = Some 1) (lineItems s))) + 5 / 2"
    by (simp add: item_one_def)
  show "sum_list (map totalCost (filter (is_daily_of 1) (aggregates (snd (run_once s))))) =
         sum_list (map li_cost (filter (\<lambda>i. li_userId i = Some 1) (lineItems s))) + 5 / 2"
    using rebuilt_totals(1) [OF job user items] cost by (simp add: run)
  show "sum_list (map totalCost (filter (is_monthly_of 1) (aggregates (snd (run_once s))))) =
         sum_list (map li_cost (filter (\<lambda>i. li_userId i = Some 1) (lineItems s))) + 5 / 2"
    using rebuilt_totals(2) [OF job user items] cost by (simp add: run)
qed

text \<open>
  C1 (the code departs from the claim). No index of the line item schema is unique, so
  the bulk insert never raises a duplicate-key error. Processing the file of job 7 a
  second time for the same user reports the row as processed again, not as skipped,
  stores a second copy of the line item, and doubles the daily and the monthly total.
\<close>

theorem reingest_duplicates_line_items:
  "fst (run_once db_start) = Some (Inr \<lparr> processed = 1, skipped = 0, total = 1 \<rparr>) \<and>
   lineItems (snd (run_once db_start)) = [item_one] \<and>
   sum_list (map totalCost (filter (is_daily_of 1) (aggregates (snd (run_once db_start))))) = 5 / 2 \<and>
   sum_list (map totalCost (filter (is_monthly_of 1) (aggregates (snd (run_once db_start))))) = 5 / 2 \<and>
   fst (run_once (snd (run_once db_start))) = Some (Inr \<lparr> processed = 1, skipped = 0, total = 1 \<rparr>) \<and>
   lineItems (snd (run_once (snd (run_once db_start)))) = [item_one, item_one] \<and>
   sum_list (map totalCost (filter (is_daily_of 1)
     (aggregates (snd (run_once (snd (run_once db_start))))))) = 5 \<and>
   sum_list (map totalCost (filter (is_monthly_of 1)
     (aggregates (snd (run_once (snd (run_once db_start))))))) = 5"
proof -
  have j0: "jobs db_start 7 = Some job_ex" by (simp add: db_start_def)
  have u0: "job_userId job_ex = Some 1" by (simp add: job_ex_def)
  note first = run_once_effect [OF j0 u0]
  have u1: "job_userId (done_job job_ex) = Some 1" by (simp add: done_job_def job_ex_def)
  note second = run_once_effect [OF first(3) u1]
  have l0: "lineItems db_start = []" by (simp add: db_start_def)
  have c1: "sum_list (map li_cost (filter (\<lambda>i. li_userId i = Some 1) [item_one])) = 5 / 2"
    by (simp add: item_one_def)
  show ?thesis
    using first(1,2,4,5) second(1,2,4,5) c1 by (simp add: l0)
qed

subsection \<open>Write errors\<close>

lemma cast_row_two:
  "cast_LineItem ((normalizeLineItem rt_ex row_two 7)(''userId'' \<mapsto> ObjId 1)) = Some item_two"
  by code_simp

lemma cast_stamped:
  "cast_LineItem (stamped row_one) = Some item_one"
  "cast_LineItem (stamped row_two) = Some item_two"
  using cast_row_one cast_row_two by (simp_all add: stamped_def)

lemma start_example:
  "jobs db_start 7 = Some job_ex" "job_userId job_ex = Some 1"
  "lineItems db_start = []" "aggregates db_start = []"
  by (simp_all add: db_start_def job_ex_def)


text \<open>
  Whatever the store answers and in whatever order the events arrive, a run whose stream
  raises no error never rejects its promise: an error of a bulk insert is not propagated.
\<close>

lemma settle_quiet:
  assumes "quiet st" and "\<And>msg. op \<noteq> SaveFailed msg"
  shows "quiet (settle ins jobId op st)"
proof (cases op)
  case (ChunkWrite docs)
  then show ?thesis using assms(1)
    by (auto simp: quiet_def chunk_written_def written_def skip_row_def
        split: prod.splits option.splits write_error.splits)
next
  case (FinalWrite docs)
  then show ?thesis using assms(1)
    by (auto simp: quiet_def final_written_def written_def update_job_def
        split: prod.splits option.splits write_error.splits)
next
  case SaveJob
  then show ?thesis using assms(1)
    by (auto simp: quiet_def job_saved_def save_job_def resolve_def Let_def)
next
  case Aggregation
  then show ?thesis using assms(1) by (auto simp: quiet_def aggregated_def resolve_def)
next
  case (SaveFailed msg)
  then show ?thesis using assms(2) by simp
qed

lemma deliver_quiet:
  assumes "quiet st" and "\<And>msg. e \<noteq> Failure msg"
  shows "quiet (deliver ins rt chunkSize jobId uid e st)"
proof (cases e)
  case (Data r)
  then show ?thesis using assms(1)
    by (auto simp: quiet_def on_data_def Let_def skip_row_def start_flush_def)
next
  case End
  then show ?thesis using assms(1) by (auto simp: quiet_def on_end_def update_job_def)
next
  case (Failure msg)
  then show ?thesis using assms(2) by simp
next
  case (Settle k)
  show ?thesis
  proof (cases "k < length (pending st)")
    case True
    let ?st = "st\<lparr> pending := take k (pending st) @ drop (Suc k) (pending st) \<rparr>"
    have "set (take k (pending st) @ drop (Suc k) (pending st)) \<subseteq> set (pending st)"
      using set_take_subset [of k "pending st"] set_drop_subset [of "Suc k" "pending st"] by auto
    then have q: "quiet ?st" using assms(1) by (auto simp: quiet_def)
    have "pending st ! k \<in> set (pending st)" using True by simp
    then have "\<And>msg. pending st ! k \<noteq> SaveFailed msg" using assms(1) by (auto simp: quiet_def)
    then show ?thesis using settle_quiet [OF q] Settle True by simp
  next
    case False
    then show ?thesis using Settle assms(1) by simp
  qed
qed

lemma run_stream_quiet:
  assumes "\<And>msg. Failure msg \<notin> set evs" and "quiet st"
  shows "quiet (run_stream ins rt chunkSize jobId uid evs st)"
  using assms
proof (induction evs arbitrary: st)
  case Nil
  then show ?case by (simp add: run_stream_def)
next
  case (Cons e evs)
  have "e \<noteq> Failure msg" for msg using Cons.prems(1) [of msg] by auto
  then have "quiet (deliver ins rt chunkSize jobId uid e st)"
    using deliver_quiet [OF Cons.prems(2)] by blast
  then show ?case using Cons.IH Cons.prems(1) by (simp add: run_stream_def)
qed

lemma write_errors_never_reject:
  assumes "\<And>msg. Failure msg \<notin> set evs"
    and "jobs s jobId = Some job" and "opt_userId opts \<noteq> None \<or> job_userId job \<noteq> None"
  shows "fst (processCSVFile ins rt evs jobId opts s) \<noteq> Some (Inl e)"
proof -
  have start: "quiet (start_state job' s')" for job' s'
    by (simp add: quiet_def start_state_def)
  show ?thesis
    using run_stream_quiet [OF assms(1) start] assms(2,3)
    by (auto simp: processCSVFile_def Let_def quiet_def split: option.splits)
qed

text \<open>
  A store that fails every write. With the default chunk the only bulk insert is the
  one of the end listener; with a chunk of one row the data listener starts one too,
  and the end of the stream finds the buffer still full.
\<close>

lemma run_failing_end:
  "processCSVFile failing_store rt_ex [Data row_one, End, Settle 0, Settle 0] 7 default_options db_start =
   (Some (Inr \<lparr> processed = 0, skipped = 0, total = 1 \<rparr>),
    db_start\<lparr> jobs := (jobs db_start)(7 \<mapsto>
                job_ex\<lparr> status := Failed, rowsProcessed := 0, rowsTotal := 1,
                        rowsSkipped := 0, job_errors := [] \<rparr>) \<rparr>)"
  by (simp add: processCSVFile_def run_stream_def start_state_def start_example default_options_def
      on_data_buffers on_end_def final_written_def written_def update_job_def job_saved_def
      save_job_def resolve_def finish_job_def failing_store_def Let_def)

lemma run_failing_chunk:
  "processCSVFile failing_store rt_ex [Data row_one, End, Settle 0, Settle 0, Settle 0] 7 chunk_one db_start =
   (Some (Inr \<lparr> processed = 0, skipped = 1, total = 1 \<rparr>),
    db_start\<lparr> jobs := (jobs db_start)(7 \<mapsto>
                job_ex\<lparr> status := Failed, rowsProcessed := 0, rowsTotal := 1,
                        rowsSkipped := 1, job_errors := [(1, ''connection lost'')] \<rparr>) \<rparr>)"
  by (simp add: processCSVFile_def run_stream_def start_state_def start_example chunk_one_def
      on_data_buffers start_flush_def on_end_def chunk_written_def final_written_def written_def
      skip_row_def update_job_def job_saved_def
      save_job_def resolve_def finish_job_def failing_store_def Let_def)

lemma stream_left_paused:
  "run_stream failing_store rt_ex 1 7 1 [Data row_one, Settle 0] (start_state job_running db_running) =
   \<lparr> rowCount = 1, processedCount = 0, skippedCount = 1, errors = [(1, ''connection lost'')],
     batch = [stamped row_one], paused = True, closed = False, pending = [],
     job_doc = job_running, store = db_running, outcome = None \<rparr>"
  by (simp add: run_stream_def start_state_def on_data_buffers start_flush_def chunk_written_def
      written_def skip_row_def failing_store_def stamped_def Let_def)

text \<open>
  C4 (the code departs from the claim). A bulk insert that fails with an error other
  than a duplicate key is not propagated. In the end listener it is only logged: the
  run of the one-row file resolves with nothing processed and nothing skipped, and the
  job is saved as failed without an error entry. In the data listener the rethrown
  error is caught by the listener itself: it is recorded against the row as one skipped
  row, the buffer is kept and the stream stays paused; when the end of the stream is
  delivered, the run resolves as well.
\<close>

theorem write_error_is_not_propagated:
  "failing_store [stamped row_one] [] = (Some (WriteFailure ''connection lost''), []) \<and>
   processCSVFile failing_store rt_ex [Data row_one, End, Settle 0, Settle 0] 7 default_options db_start =
     (Some (Inr \<lparr> processed = 0, skipped = 0, total = 1 \<rparr>),
      db_start\<lparr> jobs := (jobs db_start)(7 \<mapsto>
                  job_ex\<lparr> status := Failed, rowsProcessed := 0, rowsTotal := 1,
                          rowsSkipped := 0, job_errors := [] \<rparr>) \<rparr>) \<and>
   processCSVFile failing_store rt_ex [Data row_one, End, Settle 0, Settle 0, Settle 0] 7 chunk_one db_start =
     (Some (Inr \<lparr> processed = 0, skipped = 1, total = 1 \<rparr>),
      db_start\<lparr> jobs := (jobs db_start)(7 \<mapsto>
                  job_ex\<lparr> status := Failed, rowsProcessed := 0, rowsTotal := 1,
                          rowsSkipped := 1, job_errors := [(1, ''connection lost'')] \<rparr>) \<rparr>) \<and>
   run_stream failing_store rt_ex 1 7 1 [Data row_one, Settle 0] (start_state job_running db_running) =
     \<lparr> rowCount = 1, processedCount = 0, skippedCount = 1, errors = [(1, ''connection lost'')],
       batch = [stamped row_one], paused = True, closed = False, pending = [],
       job_doc = job_running, store = db_running, outcome = None \<rparr>"
proof -
  have "failing_store [stamped row_one] [] = (Some (WriteFailure ''connection lost''), [])"
    by (simp add: failing_store_def)
  then show ?thesis
    using run_failing_end run_failing_chunk stream_left_paused by simp
qed

subsection \<open>A chunk in flight when the stream ends\<close>

text \<open>
  The buffer is emptied only when the bulk insert of the data listener has completed.
  When the end of the stream is delivered before that, the end listener finds the same
  rows in the buffer and writes them a second time; when it is delivered after that,
  the rows are written once.
\<close>

lemma chunk_in_flight_at_end:
  "fst (processCSVFile BillingLineItem_insertMany rt_ex
          [Data row_one, Data row_two, End, Settle 0, Settle 0, Settle 0, Settle 0] 7 chunk_two db_start) =
     Some (Inr \<lparr> processed = 2, skipped = 0, total = 2 \<rparr>)"
  "lineItems (snd (processCSVFile BillingLineItem_insertMany rt_ex
          [Data row_one, Data row_two, End, Settle 0, Settle 0, Settle 0, Settle 0] 7 chunk_two db_start)) =
     [item_one, item_two, item_one, item_two]"
  "fst (processCSVFile BillingLineItem_insertMany rt_ex
          [Data row_one, Data row_two, Settle 0, End, Settle 0, Settle 0] 7 chunk_two db_start) =
     Some (Inr \<lparr> processed = 2, skipped = 0, total = 2 \<rparr>)"
  "lineItems (snd (processCSVFile BillingLineItem_insertMany rt_ex
          [Data row_one, Data row_two, Settle 0, End, Settle 0, Settle 0] 7 chunk_two db_start)) =
     [item_one, item_two]"
  using cast_stamped
  by (simp_all add: processCSVFile_def run_stream_def start_state_def start_example chunk_two_def
      on_data_buffers start_flush_def on_end_def chunk_written_def final_written_def written_def
      update_job_def job_saved_def aggregated_def save_job_def resolve_def finish_job_def
      BillingLineItem_insertMany_appends stamped_def aggregateData_lineItems Let_def)

section \<open>Properties of the reserved-instance detector\<close>

lemma ri_query_built: "build_query ri_options rt_ex = Inr ri_query"
  by code_simp

lemma ri_nonstrict: "find_monthly_EC2 False ri_query (aggregates db_ri) = []"
  by code_simp

lemma ri_strict: "find_monthly_EC2 True ri_query (aggregates db_ri) = aggregates db_ri"
  by code_simp

lemma ri_in_window:
  "map totalCost (filter (\<lambda>a. in_range (q_usageStartDate ri_query) (Some (date a))) (aggregates db_ri)) = [600]"
  by code_simp

lemma ri_spend:
  "push_all account_name totalCost (aggregates db_ri) [] = Inr [(''123456789012'', [6000, 600])]"
  by code_simp

lemma ri_stats: "mean_of [6000, 600] = 3300" "stdDev_of [6000, 600] = 2700"
proof -
  show m: "mean_of [6000, 600] = 3300" by (simp add: mean_of_def)
  have "variance_of [6000, 600] = 2700\<^sup>2"
    by (simp add: variance_of_def m power2_eq_square)
  then show "stdDev_of [6000, 600] = 2700"
    by (simp add: stdDev_of_def)
qed

lemma ri_unstable: "ri_recommendation (''123456789012'', [6000, 600]) = []"
  by (simp add: ri_recommendation_def ri_stats Let_def)

lemma ri_window_stats: "mean_of [600] = 600" "stdDev_of [600] / mean_of [600] = 0"
  by (simp_all add: mean_of_def stdDev_of_def variance_of_def)

lemma ri_window_rule:
  "map rec_type (ri_recommendation (''123456789012'', [600])) = [ReservedInstance]"
  "map estimatedSavings (ri_recommendation (''123456789012'', [600])) = [300]"
  using ri_window_stats by (simp_all add: ri_recommendation_def Let_def)

text \<open>
  C8 (the code departs from the claim). The detector hands the line-item filter, with
  its range on \<open>usageStartDate\<close>, to the aggregate collection, whose documents have a
  \<open>date\<close> and no \<open>usageStartDate\<close>. The account of the example has one monthly EC2
  aggregate in the lookback window, of cost 600: mean 600 and coefficient of variation 0,
  so the claim expects one recommendation with estimated savings 300. With the clause
  sent to the database as written no aggregate matches and nothing is emitted; with the
  clause dropped by \<open>strictQuery\<close> the aggregate of June 2023 is counted as well, the
  coefficient of variation is 2700/3300, and nothing is emitted either.
\<close>

theorem reserved_instance_query_misses_window:
  "build_query ri_options rt_ex = Inr ri_query \<and>
   map totalCost (filter (\<lambda>a. in_range (q_usageStartDate ri_query) (Some (date a))) (aggregates db_ri)) = [600] \<and>
   500 < mean_of [600] \<and> stdDev_of [600] / mean_of [600] < 2 / 10 \<and>
   detectRIOpportunities False ri_query db_ri = Inr [] \<and>
   detectRIOpportunities True ri_query db_ri = Inr []"
proof -
  have off: "detectRIOpportunities False ri_query db_ri = Inr []"
    by (simp add: detectRIOpportunities_def ri_nonstrict Object_entries_def)
  have on: "detectRIOpportunities True ri_query db_ri = Inr []"
    unfolding detectRIOpportunities_def ri_strict ri_spend
    by (simp add: Object_entries_single ri_unstable)
  show ?thesis
    using ri_query_built ri_in_window ri_window_stats off on by simp
qed

end
